theory Spec2Isabelle
  imports Complex_Main
begin

section \<open>Seren Sync: classification, throttling and delivery of Signal K values\<close>

text \<open>
  A shallow embedding of \<^verbatim>\<open>src/index.js\<close>, the plugin that forwards Signal K values to
  one Unix domain socket per category. The closure variables of the module
  (\<^verbatim>\<open>socketClients\<close>, \<^verbatim>\<open>reconnectTimers\<close>, \<^verbatim>\<open>isShuttingDown\<close>,
  \<^verbatim>\<open>lastTransmissionTimes\<close>, \<^verbatim>\<open>plugin.options\<close>) are the fields of one state record that every
  handler takes and returns; what a handler does to the outside (log lines, socket writes,
  timers, connection attempts) is the list of effects it returns, in program order.

  JavaScript strings are modelled by \<^typ>\<open>string\<close>, each \<^typ>\<open>char\<close> standing for one UTF-16 code
  unit below 256.
\<close>

subsection \<open>Regular expressions of the category patterns\<close>

text \<open>
  Every pattern of \<^verbatim>\<open>CATEGORY_PATTERNS\<close> is written \<^verbatim>\<open>/^...$/\<close> with no flag, so
  \<^verbatim>\<open>pattern.test(path)\<close> asks whether the whole path is a word of the expression between the
  anchors (and, with no \<^verbatim>\<open>g\<close> or \<^verbatim>\<open>y\<close> flag, \<^verbatim>\<open>test\<close> keeps no state). Capture groups do
  not change the answer and are dropped. The constructs used are literals, \<^verbatim>\<open>.\<close>, character
  classes, alternation, \<^verbatim>\<open>*\<close> and \<^verbatim>\<open>+\<close>.
\<close>

datatype regex =
    Nul
  | Epsilon
  | Chr char
  | Dot
  | Class "char list"
  | Seq regex regex
  | Alt regex regex
  | Star regex

text \<open>Without the \<^verbatim>\<open>s\<close> flag, \<^verbatim>\<open>.\<close> matches any code unit but a line terminator.\<close>

definition line_terminator :: "char \<Rightarrow> bool" where
  "line_terminator c = (c = CHR 0x0A \<or> c = CHR 0x0D)"

fun nullable :: "regex \<Rightarrow> bool" where
  "nullable Nul = False"
| "nullable Epsilon = True"
| "nullable (Chr c) = False"
| "nullable Dot = False"
| "nullable (Class cs) = False"
| "nullable (Seq r s) = (nullable r \<and> nullable s)"
| "nullable (Alt r s) = (nullable r \<or> nullable s)"
| "nullable (Star r) = True"

fun seq :: "regex \<Rightarrow> regex \<Rightarrow> regex" where
  "seq Nul s = Nul"
| "seq r Nul = Nul"
| "seq Epsilon s = s"
| "seq r s = Seq r s"

fun alt :: "regex \<Rightarrow> regex \<Rightarrow> regex" where
  "alt Nul s = s"
| "alt r Nul = r"
| "alt r s = Alt r s"

fun deriv :: "char \<Rightarrow> regex \<Rightarrow> regex" where
  "deriv c Nul = Nul"
| "deriv c Epsilon = Nul"
| "deriv c (Chr d) = (if c = d then Epsilon else Nul)"
| "deriv c Dot = (if line_terminator c then Nul else Epsilon)"
| "deriv c (Class cs) = (if c \<in> set cs then Epsilon else Nul)"
| "deriv c (Seq r s) =
     (if nullable r then alt (seq (deriv c r) s) (deriv c s) else seq (deriv c r) s)"
| "deriv c (Alt r s) = alt (deriv c r) (deriv c s)"
| "deriv c (Star r) = seq (deriv c r) (Star r)"

fun derivs :: "string \<Rightarrow> regex \<Rightarrow> regex" where
  "derivs [] r = r"
| "derivs (c # cs) r = derivs cs (deriv c r)"

definition test :: "regex \<Rightarrow> string \<Rightarrow> bool" where
  "test pattern path = nullable (derivs path pattern)"

text \<open>
  What \<^verbatim>\<open>test\<close> is to decide: the words of an expression, as the regular expressions of
  ECMAScript define them for these constructs.
\<close>

inductive_set star :: "string set \<Rightarrow> string set" for A :: "string set" where
  none: "[] \<in> star A"
| more: "u \<in> A \<Longrightarrow> v \<in> star A \<Longrightarrow> u @ v \<in> star A"

fun lang :: "regex \<Rightarrow> string set" where
  "lang Nul = {}"
| "lang Epsilon = {[]}"
| "lang (Chr c) = {[c]}"
| "lang Dot = {[c] | c. \<not> line_terminator c}"
| "lang (Class cs) = {[c] | c. c \<in> set cs}"
| "lang (Seq r s) = {u @ v | u v. u \<in> lang r \<and> v \<in> lang s}"
| "lang (Alt r s) = lang r \<union> lang s"
| "lang (Star r) = star (lang r)"

fun lit :: "string \<Rightarrow> regex" where
  "lit [] = Epsilon"
| "lit [c] = Chr c"
| "lit (c # cs) = Seq (Chr c) (lit cs)"

fun cat :: "regex list \<Rightarrow> regex" where
  "cat [] = Epsilon"
| "cat [r] = r"
| "cat (r # rs) = Seq r (cat rs)"

definition Many1 :: "regex \<Rightarrow> regex" where
  "Many1 r = Seq r (Star r)"

definition digit :: regex where
  "digit = Class ''0123456789''"

subsection \<open>Categories and their patterns\<close>

datatype category = Dump | State | Position | Sensor

text \<open>
  \<^verbatim>\<open>CATEGORY_PATTERNS\<close>, in the order of its keys (the order \<^verbatim>\<open>Object.entries\<close> walks them).
\<close>

definition dump_patterns :: "regex list" where
  "dump_patterns =
    [ cat [Star Dot, lit ''totalPanel'', Star Dot],
      cat [Star Dot, lit ''ModeNumber'', Star Dot],
      cat [Star Dot, lit ''consumedCharge'', Star Dot],
      cat [lit ''electrical.batteries'', Dot, lit ''279'', Star Dot] ]"

definition state_patterns :: "regex list" where
  "state_patterns =
    [ cat [Star Dot, Alt (Chr CHR ''m'') (Chr CHR ''M''), lit ''ode''],
      cat [Star Dot, lit ''.'', lit ''name''],
      cat [Star Dot, lit ''.'', lit ''state''],
      cat [lit ''electrical.batteries.'', Many1 digit, lit ''.capacity.dischargedEnergy''],
      cat [lit ''electrical.batteries.'', Many1 digit, lit ''.capacity.stateOfCharge''],
      cat [lit ''electrical.batteries.'', Many1 digit, lit ''.lifetimeDischarge''],
      cat [lit ''electrical.solar.'', Many1 digit, lit ''.systemYield''],
      cat [lit ''electrical.solar.'', Many1 digit, lit ''.yieldToday''],
      cat [lit ''electrical.solar.'', Many1 digit, lit ''.yieldYesterday''],
      lit ''navigation.courseRhumbline.nextPoint.position'',
      cat [lit ''navigation.currentRoute.'', Star Dot],
      cat [lit ''navigation.gns'', Star Dot],
      lit ''navigation.magneticVariation'',
      lit ''navigation.trip.log'',
      cat [lit ''notifications'', Star Dot],
      cat [lit ''sensors.ais'', Star Dot],
      cat [lit ''steering'', Star Dot] ]"

definition position_patterns :: "regex list" where
  "position_patterns = [ lit ''navigation.position'' ]"

definition sensor_patterns :: "regex list" where
  "sensor_patterns =
    [ cat [Star Dot, Class ''cC'', lit ''urrent''],
      cat [Star Dot, Class ''pP'', lit ''ower''],
      cat [Star Dot, Class ''vV'', lit ''oltage''],
      cat [Star Dot, Class ''tT'', lit ''emperature''],
      cat [lit ''environment'', Star Dot],
      cat [lit ''navigation'', Star Dot] ]"

definition CATEGORY_PATTERNS :: "(category \<times> regex list) list" where
  "CATEGORY_PATTERNS =
    [ (Dump, dump_patterns),
      (State, state_patterns),
      (Position, position_patterns),
      (Sensor, sensor_patterns) ]"

text \<open>
  \<^verbatim>\<open>categorizeData\<close>: the dump patterns first; then every entry but the dump one, in order,
  the first pattern that matches deciding; \<^verbatim>\<open>'dump'\<close> when nothing matches.
\<close>

fun first_category :: "(category \<times> regex list) list \<Rightarrow> string \<Rightarrow> category" where
  "first_category [] path = Dump"
| "first_category ((category, patterns) # entries) path =
     (if category = Dump then first_category entries path
      else if list_ex (\<lambda>pattern. test pattern path) patterns then category
      else first_category entries path)"

definition categorizeData :: "string \<Rightarrow> category" where
  "categorizeData path =
     (if list_ex (\<lambda>pattern. test pattern path) dump_patterns then Dump
      else first_category CATEGORY_PATTERNS path)"

subsection \<open>JavaScript values\<close>

text \<open>
  A number is a double: not-a-number, an infinity, or a finite value, written as the real number
  it denotes (\<open>-0\<close> and \<open>0\<close> are one value here: the program never tells them apart).
  Comparison, \<^verbatim>\<open>Math.floor\<close> and truthiness are exact on doubles. Where the result of an
  operation depends on rounding, on the printing of a fraction or on the host's parsers, it is
  taken from the record \<open>runtime\<close> below instead of being computed.
\<close>

datatype jsnum = NaN | PosInf | NegInf | Fin real

text \<open>
  The values the bus delivers: data, with no functions in it. The properties of an object
  are listed in the order the engine enumerates them; their keys are distinct.
\<close>

datatype jsval =
    JUndefined
  | JNull
  | JBool bool
  | JNum jsnum
  | JStr string
  | JArr "jsval list"
  | JObj "(string \<times> jsval) list"

text \<open>\<^verbatim>\<open>!v\<close> is \<open>\<not> truthy v\<close>.\<close>

fun truthy :: "jsval \<Rightarrow> bool" where
  "truthy JUndefined = False"
| "truthy JNull = False"
| "truthy (JBool b) = b"
| "truthy (JNum n) = (n \<noteq> NaN \<and> n \<noteq> Fin 0)"
| "truthy (JStr s) = (s \<noteq> [])"
| "truthy (JArr xs) = True"
| "truthy (JObj fs) = True"

text \<open>\<^verbatim>\<open>typeof v === 'object'\<close>; \<^verbatim>\<open>null\<close> is one.\<close>

fun typeof_object :: "jsval \<Rightarrow> bool" where
  "typeof_object JNull = True"
| "typeof_object (JArr xs) = True"
| "typeof_object (JObj fs) = True"
| "typeof_object v = False"

text \<open>
  \<^verbatim>\<open>v.key\<close> for a key that \<^verbatim>\<open>Object.prototype\<close> and \<^verbatim>\<open>Array.prototype\<close> do not define
  and that is no array index: an object's own property, \<^verbatim>\<open>undefined\<close> otherwise.
\<close>

fun get_property :: "jsval \<Rightarrow> string \<Rightarrow> jsval" where
  "get_property (JObj fs) key = (case map_of fs key of Some v \<Rightarrow> v | None \<Rightarrow> JUndefined)"
| "get_property v key = JUndefined"

text \<open>
  What is left to the engine and the host. \<open>Inl\<close> is the message of the exception thrown.
  \<^item> \<open>Date_getTime s\<close>: \<^verbatim>\<open>new Date(s).getTime()\<close>, \<open>NaN\<close> for a string that is no date;
  \<^item> \<open>ToNumber_other v\<close>: \<^verbatim>\<open>Number(v)\<close> for a string, an array or an object;
  \<^item> \<open>ToString_object v\<close>: \<^verbatim>\<open>String(v)\<close> for an array or an object;
  \<^item> \<open>Number_toString r\<close>: the decimal text of a finite number that is no safe integer;
  \<^item> \<open>Number_times a b\<close>: the rounded product of two finite numbers, where the exact
    product is no safe integer;
  \<^item> \<open>not_a_function\<close>: the message of the \<^verbatim>\<open>TypeError\<close> for calling a method that a
    value does not have.
\<close>

record runtime =
  Date_getTime :: "string \<Rightarrow> jsnum"
  ToNumber_other :: "jsval \<Rightarrow> string + jsnum"
  ToString_object :: "jsval \<Rightarrow> string + string"
  Number_toString :: "real \<Rightarrow> string"
  Number_times :: "real \<Rightarrow> real \<Rightarrow> jsnum"
  not_a_function :: string

definition safe_integer :: "real \<Rightarrow> bool" where
  "safe_integer r = (of_int \<lfloor>r\<rfloor> = r \<and> \<bar>r\<bar> \<le> 2 ^ 53)"

text \<open>\<^verbatim>\<open>Number(v)\<close>.\<close>

fun Number :: "runtime \<Rightarrow> jsval \<Rightarrow> string + jsnum" where
  "Number rt JUndefined = Inr NaN"
| "Number rt JNull = Inr (Fin 0)"
| "Number rt (JBool b) = Inr (Fin (if b then 1 else 0))"
| "Number rt (JNum n) = Inr n"
| "Number rt v = ToNumber_other rt v"

text \<open>\<^verbatim>\<open>Math.floor\<close>.\<close>

fun Math_floor :: "jsnum \<Rightarrow> jsnum" where
  "Math_floor (Fin r) = Fin (of_int \<lfloor>r\<rfloor>)"
| "Math_floor n = n"

text \<open>\<^verbatim>\<open>a * b\<close> for a positive finite \<open>b\<close>.\<close>

fun js_times :: "runtime \<Rightarrow> jsnum \<Rightarrow> real \<Rightarrow> jsnum" where
  "js_times rt (Fin a) b = (if safe_integer (a * b) then Fin (a * b) else Number_times rt a b)"
| "js_times rt n b = n"

text \<open>\<^verbatim>\<open>a > b\<close> and \<^verbatim>\<open>a >= b\<close> for a finite \<open>b\<close>.\<close>

fun js_gt :: "jsnum \<Rightarrow> real \<Rightarrow> bool" where
  "js_gt (Fin a) b = (a > b)"
| "js_gt PosInf b = True"
| "js_gt n b = False"

fun js_ge :: "jsnum \<Rightarrow> jsnum \<Rightarrow> bool" where
  "js_ge NaN n = False"
| "js_ge n NaN = False"
| "js_ge PosInf n = True"
| "js_ge n NegInf = True"
| "js_ge NegInf n = False"
| "js_ge n PosInf = False"
| "js_ge (Fin a) (Fin b) = (a \<ge> b)"

subsection \<open>Strings of numbers, \<^verbatim>\<open>JSON.stringify\<close>\<close>

fun digits :: "nat \<Rightarrow> string" where
  "digits n = (if n < 10 then [''0123456789'' ! n] else digits (n div 10) @ [''0123456789'' ! (n mod 10)])"

declare digits.simps [simp del]

definition show_int :: "int \<Rightarrow> string" where
  "show_int i = (if i < 0 then ''-'' @ digits (nat (- i)) else digits (nat i))"

text \<open>\<^verbatim>\<open>String(n)\<close> for a number.\<close>

fun Number_string :: "runtime \<Rightarrow> jsnum \<Rightarrow> string" where
  "Number_string rt NaN = ''NaN''"
| "Number_string rt PosInf = ''Infinity''"
| "Number_string rt NegInf = ''-Infinity''"
| "Number_string rt (Fin r) = (if safe_integer r then show_int \<lfloor>r\<rfloor> else Number_toString rt r)"

text \<open>\<^verbatim>\<open>String(v)\<close>, as a template literal and \<^verbatim>\<open>String\<close> compute it.\<close>

fun ToString :: "runtime \<Rightarrow> jsval \<Rightarrow> string + string" where
  "ToString rt JUndefined = Inr ''undefined''"
| "ToString rt JNull = Inr ''null''"
| "ToString rt (JBool b) = Inr (if b then ''true'' else ''false'')"
| "ToString rt (JNum n) = Inr (Number_string rt n)"
| "ToString rt (JStr s) = Inr s"
| "ToString rt v = ToString_object rt v"

definition hex_digit :: "nat \<Rightarrow> char" where
  "hex_digit n = ''0123456789abcdef'' ! n"

text \<open>The JSON escape of one code unit.\<close>

definition quote_char :: "char \<Rightarrow> string" where
  "quote_char c =
     (if c = CHR 0x22 then [CHR 0x5C, CHR 0x22]
      else if c = CHR 0x5C then [CHR 0x5C, CHR 0x5C]
      else if c = CHR 0x08 then [CHR 0x5C, CHR ''b'']
      else if c = CHR 0x0C then [CHR 0x5C, CHR ''f'']
      else if c = CHR 0x0A then [CHR 0x5C, CHR ''n'']
      else if c = CHR 0x0D then [CHR 0x5C, CHR ''r'']
      else if c = CHR 0x09 then [CHR 0x5C, CHR ''t'']
      else if (of_char c :: nat) < 32
        then [CHR 0x5C, CHR ''u'', CHR ''0'', CHR ''0'',
              hex_digit ((of_char c :: nat) div 16), hex_digit ((of_char c :: nat) mod 16)]
      else [c])"

definition quote :: "string \<Rightarrow> string" where
  "quote s = [CHR 0x22] @ concat (map quote_char s) @ [CHR 0x22]"

fun join :: "string \<Rightarrow> string list \<Rightarrow> string" where
  "join sep [] = []"
| "join sep [x] = x"
| "join sep (x # xs) = x @ sep @ join sep xs"

text \<open>
  \<^verbatim>\<open>JSON.stringify(v)\<close> with no replacer and no indentation; \<open>None\<close> is \<^verbatim>\<open>undefined\<close>. A
  property whose value is \<^verbatim>\<open>undefined\<close> is left out of an object and is \<^verbatim>\<open>null\<close> in an
  array; a number that is not finite is \<^verbatim>\<open>null\<close>.
\<close>

fun JSON_stringify :: "runtime \<Rightarrow> jsval \<Rightarrow> string option"
  and stringify_elements :: "runtime \<Rightarrow> jsval list \<Rightarrow> string list"
  and stringify_properties :: "runtime \<Rightarrow> (string \<times> jsval) list \<Rightarrow> string list" where
  "JSON_stringify rt JUndefined = None"
| "JSON_stringify rt JNull = Some ''null''"
| "JSON_stringify rt (JBool b) = Some (if b then ''true'' else ''false'')"
| "JSON_stringify rt (JNum (Fin r)) = Some (Number_string rt (Fin r))"
| "JSON_stringify rt (JNum n) = Some ''null''"
| "JSON_stringify rt (JStr s) = Some (quote s)"
| "JSON_stringify rt (JArr xs) = Some (''['' @ join '','' (stringify_elements rt xs) @ '']'')"
| "JSON_stringify rt (JObj fs) = Some (''{'' @ join '','' (stringify_properties rt fs) @ ''}'')"
| "stringify_elements rt [] = []"
| "stringify_elements rt (x # xs) =
     (case JSON_stringify rt x of None \<Rightarrow> ''null'' | Some s \<Rightarrow> s) # stringify_elements rt xs"
| "stringify_properties rt [] = []"
| "stringify_properties rt ((k, v) # fs) =
     (case JSON_stringify rt v of
        None \<Rightarrow> stringify_properties rt fs
      | Some s \<Rightarrow> (quote k @ '':'' @ s) # stringify_properties rt fs)"

subsection \<open>The state of the plugin and what it does to its host\<close>

text \<open>
  An object keyed by category (\<^verbatim>\<open>socketClients\<close>, \<^verbatim>\<open>reconnectTimers\<close>): its keys in the order
  they were first assigned, which is the order \<^verbatim>\<open>Object.keys\<close> lists them. The value \<open>None\<close>
  under a key is \<^verbatim>\<open>null\<close>.
\<close>

type_synonym 'a table = "(category \<times> 'a option) list"

fun assign :: "'a table \<Rightarrow> category \<Rightarrow> 'a option \<Rightarrow> 'a table" where
  "assign [] k v = [(k, v)]"
| "assign ((k', v') # t) k v = (if k' = k then (k, v) # t else (k', v') # assign t k v)"

text \<open>\<open>t[k]\<close>, with \<^verbatim>\<open>undefined\<close> and \<^verbatim>\<open>null\<close> both read as \<open>None\<close>.\<close>

definition current :: "'a table \<Rightarrow> category \<Rightarrow> 'a option" where
  "current t k = (case map_of t k of None \<Rightarrow> None | Some v \<Rightarrow> v)"

text \<open>
  A socket as the plugin sees it: the two flags \<^verbatim>\<open>writeToSocket\<close> reads, and the handle
  that tells it from the other sockets of the host.
\<close>

record socket =
  handle :: nat
  destroyed :: bool
  writable :: bool

text \<open>
  \<^verbatim>\<open>plugin.options\<close>: the three sample rates of the schema, \<open>None\<close> where not configured.
  (\<^verbatim>\<open>plugin.start\<close> sets it before it subscribes to the bus, so no value is processed
  without it.)
\<close>

record sample_rates =
  positionSampleRate :: "jsnum option"
  sensorSampleRate :: "jsnum option"
  stateSampleRate :: "jsnum option"

text \<open>
  The closure variables of the module, and the two things the host keeps for it: the
  timeouts that are armed (set, and neither fired nor cleared) and the next fresh handle.
\<close>

record plugin =
  options :: sample_rates
  deltaStreamUnsubscribe :: bool
  socketClients :: "socket table"
  reconnectTimers :: "nat table"
  isShuttingDown :: bool
  lastTransmissionTimes :: "string \<Rightarrow> int option"
  pending_timers :: "(nat \<times> category) list"
  next_handle :: nat

datatype effect =
    Debug "string list"
  | Error "string list"
  | CreateConnection nat "string option"
  | SocketWrite nat string
  | SocketDestroy nat
  | SetTimeout nat nat
  | ClearTimeout nat
  | Subscribe
  | Unsubscribe
  | Throw string

definition initial :: plugin where
  "initial =
    \<lparr> options = \<lparr>positionSampleRate = None, sensorSampleRate = None, stateSampleRate = None\<rparr>,
      deltaStreamUnsubscribe = False,
      socketClients = [],
      reconnectTimers = [],
      isShuttingDown = False,
      lastTransmissionTimes = (\<lambda>p. None),
      pending_timers = [],
      next_handle = 0 \<rparr>"

definition SOCKET_CONFIG :: "(category \<times> string) list" where
  "SOCKET_CONFIG =
    [ (Sensor, ''/tmp/signalk_sensors.sock''),
      (Position, ''/tmp/signalk_position.sock''),
      (State, ''/tmp/signalk_state.sock'') ]"

definition RECONNECT_INTERVAL :: nat where
  "RECONNECT_INTERVAL = 5000"

fun category_name :: "category \<Rightarrow> string" where
  "category_name Dump = ''dump''"
| "category_name State = ''state''"
| "category_name Position = ''position''"
| "category_name Sensor = ''sensor''"

subsection \<open>Connections and reconnection\<close>

text \<open>
  \<^verbatim>\<open>connectToSocket\<close>. The socket \<^verbatim>\<open>net.createConnection\<close> returns is writable and not
  destroyed; the three handlers it is given are \<open>on_connect\<close>, \<open>on_error\<close> and \<open>on_close\<close>
  below.
\<close>

definition connectToSocket :: "plugin \<Rightarrow> category \<Rightarrow> plugin \<times> effect list" where
  "connectToSocket st category =
     (if isShuttingDown st then (st, [])
      else
        let socketPath = map_of SOCKET_CONFIG category;
            h = next_handle st
        in (st\<lparr> socketClients :=
                   assign (socketClients st) category
                     (Some \<lparr>handle = h, destroyed = False, writable = True\<rparr>),
                 next_handle := Suc h \<rparr>,
            [ Debug [''Attempting to connect to '' @ category_name category @ '' socket at ''
                       @ (case socketPath of None \<Rightarrow> ''undefined'' | Some p \<Rightarrow> p)],
              CreateConnection h socketPath ]))"

text \<open>\<^verbatim>\<open>scheduleReconnection\<close>: a timer handle is an object, so it is truthy.\<close>

definition scheduleReconnection :: "plugin \<Rightarrow> category \<Rightarrow> plugin \<times> effect list" where
  "scheduleReconnection st category =
     (if isShuttingDown st \<or> current (reconnectTimers st) category \<noteq> None then (st, [])
      else
        let h = next_handle st
        in (st\<lparr> reconnectTimers := assign (reconnectTimers st) category (Some h),
                 pending_timers := pending_timers st @ [(h, category)],
                 next_handle := Suc h \<rparr>,
            [ Debug [''Scheduling '' @ category_name category @ '' socket reconnection in ''
                       @ show_int (int (RECONNECT_INTERVAL div 1000)) @ '' seconds''],
              SetTimeout h RECONNECT_INTERVAL ]))"

text \<open>
  The callback of the timer of \<^verbatim>\<open>scheduleReconnection\<close>, run by the host when the armed
  timeout \<open>h\<close> fires; the host fires no timeout that is not armed, and none twice.
\<close>

definition on_timeout :: "plugin \<Rightarrow> nat \<Rightarrow> plugin \<times> effect list" where
  "on_timeout st h =
     (case map_of (pending_timers st) h of
        None \<Rightarrow> (st, [])
      | Some category \<Rightarrow>
          let st1 = st\<lparr> pending_timers := filter (\<lambda>(h', c). h' \<noteq> h) (pending_timers st),
                         reconnectTimers := assign (reconnectTimers st) category None \<rparr>
          in if \<not> isShuttingDown st1
             then (let (st2, effects) = connectToSocket st1 category
                   in (st2, Debug [''Attempting to reconnect to '' @ category_name category @ '' socket'']
                            # effects))
             else (st1, []))"

definition on_connect :: "plugin \<Rightarrow> category \<Rightarrow> plugin \<times> effect list" where
  "on_connect st category =
     (st, [Debug [''Successfully connected to '' @ category_name category
                    @ '' Unix domain socket at ''
                    @ (case map_of SOCKET_CONFIG category of None \<Rightarrow> ''undefined'' | Some p \<Rightarrow> p)]])"

definition on_error :: "plugin \<Rightarrow> category \<Rightarrow> string \<Rightarrow> plugin \<times> effect list" where
  "on_error st category message =
     (st, [Error [''Socket connection error for '' @ category_name category @ '':'', message]])"

text \<open>
  The \<^verbatim>\<open>'close'\<close> handler of the socket \<open>h\<close> that \<^verbatim>\<open>connectToSocket\<close> made for the
  category. A socket that emits \<^verbatim>\<open>'close'\<close> is destroyed and no longer writable: where
  \<^verbatim>\<open>socketClients\<close> still holds that socket, its flags say so.
\<close>

definition mark_closed :: "socket table \<Rightarrow> category \<Rightarrow> nat \<Rightarrow> socket table" where
  "mark_closed t category h =
     (case current t category of
        None \<Rightarrow> t
      | Some s \<Rightarrow>
          if handle s = h then assign t category (Some (s\<lparr>destroyed := True, writable := False\<rparr>))
          else t)"

definition on_close :: "plugin \<Rightarrow> category \<Rightarrow> nat \<Rightarrow> bool \<Rightarrow> plugin \<times> effect list" where
  "on_close st category h hadError =
     (let st1 = st\<lparr>socketClients := mark_closed (socketClients st) category h\<rparr>;
          line = Debug [category_name category @ '' socket connection closed. HadError: ''
                          @ (if hadError then ''true'' else ''false'')]
      in if \<not> isShuttingDown st1
         then (let (st2, effects) = scheduleReconnection st1 category in (st2, line # effects))
         else (st1, [line]))"

subsection \<open>Start and stop\<close>

text \<open>A \<^verbatim>\<open>forEach\<close> over categories whose body changes the state and has effects.\<close>

fun for_each ::
  "(plugin \<Rightarrow> category \<Rightarrow> plugin \<times> effect list) \<Rightarrow> category list \<Rightarrow> plugin \<Rightarrow> plugin \<times> effect list"
  where
  "for_each body [] st = (st, [])"
| "for_each body (c # cs) st =
     (let (st1, effects1) = body st c;
          (st2, effects2) = for_each body cs st1
      in (st2, effects1 @ effects2))"

text \<open>
  \<^verbatim>\<open>subscribeToDeltas\<close>; \<open>bus\<close> is \<open>Some message\<close> when \<^verbatim>\<open>getSelfBus\<close> or \<^verbatim>\<open>onValue\<close> throws.
\<close>

definition subscribeToDeltas :: "plugin \<Rightarrow> string option \<Rightarrow> plugin \<times> effect list" where
  "subscribeToDeltas st bus =
     (case bus of
        None \<Rightarrow>
          (st\<lparr>deltaStreamUnsubscribe := True\<rparr>,
           [Subscribe, Debug [''Successfully subscribed to value stream'']])
      | Some message \<Rightarrow> (st, [Error [''Failed to subscribe to value stream:'', message]]))"

text \<open>\<^verbatim>\<open>plugin.start(options)\<close>; \<open>None\<close> is a call with no options.\<close>

definition start :: "plugin \<Rightarrow> sample_rates option \<Rightarrow> string option \<Rightarrow> plugin \<times> effect list" where
  "start st opts bus =
     (let st1 = st\<lparr>options :=
                  (case opts of
                     None \<Rightarrow> \<lparr>positionSampleRate = None, sensorSampleRate = None, stateSampleRate = None\<rparr>
                   | Some given \<Rightarrow> given)\<rparr>;
          (st2, connecting) = for_each connectToSocket (map fst SOCKET_CONFIG) st1;
          (st3, subscribing) = subscribeToDeltas st2 bus
      in (st3,
          [Debug [''Starting SignalK Categorized Data Forwarder plugin'']] @ connecting @ subscribing
          @ [Debug [''SignalK Categorized Data Forwarder plugin started successfully'']]))"

text \<open>The bodies of the two loops of \<^verbatim>\<open>plugin.stop\<close>.\<close>

definition clear_timer :: "plugin \<Rightarrow> category \<Rightarrow> plugin \<times> effect list" where
  "clear_timer st category =
     (case current (reconnectTimers st) category of
        None \<Rightarrow> (st, [])
      | Some h \<Rightarrow>
          (st\<lparr> pending_timers := filter (\<lambda>(h', c). h' \<noteq> h) (pending_timers st),
                reconnectTimers := assign (reconnectTimers st) category None \<rparr>,
           [ClearTimeout h]))"

definition destroy_socket :: "plugin \<Rightarrow> category \<Rightarrow> plugin \<times> effect list" where
  "destroy_socket st category =
     (case current (socketClients st) category of
        None \<Rightarrow> (st, [])
      | Some s \<Rightarrow>
          (st\<lparr>socketClients := assign (socketClients st) category None\<rparr>,
           [ SocketDestroy (handle s),
             Debug [''Socket connection closed for category: '' @ category_name category] ]))"

text \<open>
  \<^verbatim>\<open>plugin.stop()\<close>; \<open>unsubscribe\<close> is \<open>Some message\<close> when the call of
  \<^verbatim>\<open>deltaStreamUnsubscribe\<close> throws, which ends \<^verbatim>\<open>stop\<close> there.
\<close>

definition close_all :: "plugin \<Rightarrow> effect list \<Rightarrow> plugin \<times> effect list" where
  "close_all st before =
     (let (st1, closing) = for_each destroy_socket (map fst (socketClients st)) st
      in (st1\<lparr>lastTransmissionTimes := (\<lambda>p. None)\<rparr>,
          before @ closing @ [Debug [''SignalK Categorized Data Forwarder plugin stopped'']]))"

definition stop :: "plugin \<Rightarrow> string option \<Rightarrow> plugin \<times> effect list" where
  "stop st unsubscribe =
     (let st1 = st\<lparr>isShuttingDown := True\<rparr>;
          (st2, clearing) = for_each clear_timer (map fst (reconnectTimers st1)) st1;
          before = Debug [''Stopping SignalK Categorized Data Forwarder plugin''] # clearing
      in if deltaStreamUnsubscribe st2
         then (case unsubscribe of
                 Some message \<Rightarrow> (st2, before @ [Unsubscribe, Throw message])
               | None \<Rightarrow>
                   close_all (st2\<lparr>deltaStreamUnsubscribe := False\<rparr>)
                     (before @ [Unsubscribe, Debug [''Unsubscribed from delta stream'']]))
         else close_all st2 before)"

subsection \<open>The throttle\<close>

text \<open>\<^verbatim>\<open>rate || fallback\<close> for a sample rate of the options.\<close>

definition or_default :: "jsnum option \<Rightarrow> real \<Rightarrow> jsnum" where
  "or_default rate fallback =
     (case rate of
        None \<Rightarrow> Fin fallback
      | Some n \<Rightarrow> if truthy (JNum n) then n else Fin fallback)"

text \<open>The \<^verbatim>\<open>switch\<close> of \<^verbatim>\<open>shouldTransmit\<close>.\<close>

fun sampleRate :: "sample_rates \<Rightarrow> category \<Rightarrow> jsnum" where
  "sampleRate opts Position = or_default (positionSampleRate opts) 1000"
| "sampleRate opts Sensor = or_default (sensorSampleRate opts) 2000"
| "sampleRate opts State = or_default (stateSampleRate opts) 500"
| "sampleRate opts Dump = Fin 1000"

text \<open>
  \<^verbatim>\<open>lastTransmissionTimes\<close> is an object literal, so a key it does not own is looked up in
  \<^verbatim>\<open>Object.prototype\<close>. These are the names found there; what is found is a function (an
  object for \<^verbatim>\<open>__proto__\<close>), which is truthy and not a number.
\<close>

definition Object_prototype :: "string list" where
  "Object_prototype =
    [ ''constructor'', ''__defineGetter__'', ''__defineSetter__'', ''hasOwnProperty'',
      ''__lookupGetter__'', ''__lookupSetter__'', ''isPrototypeOf'', ''propertyIsEnumerable'',
      ''toString'', ''valueOf'', ''__proto__'', ''toLocaleString'' ]"

text \<open>
  \<^verbatim>\<open>shouldTransmit(path, category, timestamp)\<close>; \<open>now\<close> is what \<^verbatim>\<open>Date.now()\<close> returns in it.
  With an inherited property for \<^verbatim>\<open>lastTransmissionTimes[path]\<close> the difference is not a
  number, and no comparison with it holds.
\<close>

definition shouldTransmit :: "plugin \<Rightarrow> int \<Rightarrow> string \<Rightarrow> category \<Rightarrow> bool" where
  "shouldTransmit st now path category =
     (case lastTransmissionTimes st path of
        Some t \<Rightarrow> js_ge (Fin (of_int (now - t))) (sampleRate (options st) category)
      | None \<Rightarrow>
          if path \<in> set Object_prototype then False
          else js_ge (Fin (of_int (now - 0))) (sampleRate (options st) category))"

text \<open>
  \<^verbatim>\<open>lastTransmissionTimes[path] = now\<close>: the setter of \<^verbatim>\<open>__proto__\<close> ignores a number.
\<close>

definition record_transmission :: "plugin \<Rightarrow> string \<Rightarrow> int \<Rightarrow> plugin" where
  "record_transmission st path now =
     (if path = ''__proto__'' then st
      else st\<lparr>lastTransmissionTimes := (lastTransmissionTimes st)(path \<mapsto> now)\<rparr>)"

subsection \<open>Writing to a socket\<close>

text \<open>
  \<^verbatim>\<open>writeToSocket(category, data)\<close>. It changes nothing of the plugin: its result is what it
  logs and writes. The call of \<^verbatim>\<open>serializeData\<close> is commented out in the source; the line
  written is \<^verbatim>\<open>JSON.stringify(data) + '\n'\<close>.
\<close>

definition writeToSocket :: "runtime \<Rightarrow> plugin \<Rightarrow> category \<Rightarrow> jsval \<Rightarrow> effect list" where
  "writeToSocket rt st category data =
     (case current (socketClients st) category of
        None \<Rightarrow>
          [Debug [''Socket not available for category '' @ category_name category
                    @ '', skipping data write'']]
      | Some socketClient \<Rightarrow>
          if destroyed socketClient \<or> \<not> writable socketClient
          then [Debug [''Socket not available for category '' @ category_name category
                         @ '', skipping data write'']]
          else
            let jsonString =
                  (case JSON_stringify rt data of None \<Rightarrow> ''undefined'' | Some json \<Rightarrow> json)
                  @ [CHR 0x0A]
            in [ Debug [''Writing to socket:'', jsonString],
                 SocketWrite (handle socketClient) jsonString ])"

subsection \<open>Processing one value\<close>

text \<open>
  A value object of the bus. Its path is a string or missing; \<open>raw_source\<close> is its
  \<^verbatim>\<open>$source\<close>. A field that is missing is \<^verbatim>\<open>undefined\<close>.
\<close>

record valueObj =
  raw_path :: "string option"
  raw_value :: jsval
  raw_timestamp :: jsval
  raw_source :: jsval

text \<open>
  What \<^verbatim>\<open>Date.now()\<close> returns at each of the three places \<^verbatim>\<open>processValueObj\<close> may read
  it: in \<^verbatim>\<open>shouldTransmit\<close>, for \<^verbatim>\<open>lastTransmissionTimes[path]\<close>, and as the fallback
  timestamp.
\<close>

record clock =
  now_shouldTransmit :: int
  now_lastTransmission :: int
  now_timestamp :: int

text \<open>
  The timestamp in milliseconds, as \<^verbatim>\<open>processValueObj\<close> and \<^verbatim>\<open>serializeData\<close> both compute
  it; \<open>now\<close> is what \<^verbatim>\<open>Date.now()\<close> returns.
\<close>

fun timestampMs :: "runtime \<Rightarrow> int \<Rightarrow> jsval \<Rightarrow> jsnum" where
  "timestampMs rt now (JStr s) = Math_floor (Date_getTime rt s)"
| "timestampMs rt now (JNum n) =
     (if js_gt n 1000000000000 then Math_floor n else Math_floor (js_times rt n 1000))"
| "timestampMs rt now timestamp = Fin (of_int now)"

text \<open>
  The test on latitude and longitude; \<^verbatim>\<open>||\<close> does not evaluate its right side when the
  left one holds. \<open>Inl\<close> is the message of an exception \<^verbatim>\<open>Number\<close> throws.
\<close>

definition zero_lat_lon :: "runtime \<Rightarrow> jsval \<Rightarrow> string + bool" where
  "zero_lat_lon rt v =
     (case Number rt (get_property v ''latitude'') of
        Inl message \<Rightarrow> Inl message
      | Inr latitude \<Rightarrow>
          if latitude = Fin 0 then Inr True
          else (case Number rt (get_property v ''longitude'') of
                  Inl message \<Rightarrow> Inl message
                | Inr longitude \<Rightarrow> Inr (longitude = Fin 0)))"

definition measurementData :: "string \<Rightarrow> jsnum \<Rightarrow> jsval \<Rightarrow> jsval \<Rightarrow> jsval" where
  "measurementData path time v source =
     JObj [(''path'', JStr path), (''time'', JNum time), (''value'', v), (''source'', source)]"

text \<open>
  The end of \<^verbatim>\<open>processValueObj\<close>, from the throttle on (lines 250 to 280): the value has
  passed the filters and has the category given.
\<close>

definition transmit ::
  "runtime \<Rightarrow> clock \<Rightarrow> plugin \<Rightarrow> valueObj \<Rightarrow> string \<Rightarrow> category \<Rightarrow> plugin \<times> effect list" where
  "transmit rt clk st valueObj path category =
     (if \<not> shouldTransmit st (now_shouldTransmit clk) path category then (st, [])
      else
        let st1 = record_transmission st path (now_lastTransmission clk);
            source = (if truthy (raw_source valueObj) then raw_source valueObj
                      else JStr ''unknown'');
            time = timestampMs rt (now_timestamp clk) (raw_timestamp valueObj)
        in (st1,
            writeToSocket rt st1 category
              (measurementData path time (raw_value valueObj) source)))"

text \<open>
  \<^verbatim>\<open>processValueObj(valueObj)\<close>. An exception inside it is caught and logged, and the value
  is dropped.
\<close>

definition processValueObj :: "runtime \<Rightarrow> clock \<Rightarrow> plugin \<Rightarrow> valueObj \<Rightarrow> plugin \<times> effect list" where
  "processValueObj rt clk st valueObj =
     (case raw_path valueObj of
        None \<Rightarrow> (st, [])
      | Some path \<Rightarrow>
          if path = [] \<or> raw_value valueObj = JUndefined \<or> \<not> truthy (raw_timestamp valueObj)
          then (st, [])
          else
            let category = categorizeData path in
            if category = Dump
            then (st, [Debug [''Discarding dump category data for path: '' @ path]])
            else
              (case (if category = Position \<and> truthy (raw_value valueObj)
                        \<and> typeof_object (raw_value valueObj)
                     then zero_lat_lon rt (raw_value valueObj) else Inr False) of
                 Inl message \<Rightarrow> (st, [Error [''Error processing value object:'', message]])
               | Inr True \<Rightarrow> (st, [Debug [''Discarding position with zero lat/lon'']])
               | Inr False \<Rightarrow> transmit rt clk st valueObj path category))"

subsection \<open>The compact format\<close>

text \<open>\<^verbatim>\<open>s.replace(/\|/g, '\\|')\<close>.\<close>

definition escape_pipes :: "string \<Rightarrow> string" where
  "escape_pipes s = concat (map (\<lambda>c. if c = CHR ''|'' then [CHR 0x5C, CHR ''|''] else [c]) s)"

definition white_space :: "char \<Rightarrow> bool" where
  "white_space c = (c \<in> set [CHR 0x09, CHR 0x0A, CHR 0x0B, CHR 0x0C, CHR 0x0D, CHR 0x20, CHR 0xA0])"

definition trim :: "string \<Rightarrow> string" where
  "trim s = rev (dropWhile white_space (rev (dropWhile white_space s)))"

text \<open>
  \<^verbatim>\<open>serializeData(data)\<close>: the line, or \<^verbatim>\<open>null\<close> after an exception, and what it logs.
  No function of the module calls it.
\<close>

definition serializeData :: "runtime \<Rightarrow> int \<Rightarrow> jsval \<Rightarrow> string option \<times> effect list" where
  "serializeData rt now data =
     (let time = timestampMs rt now (get_property data ''timestamp'');
          source = (if truthy (get_property data ''source'') then get_property data ''source''
                    else JStr ''unknown'');
          failed = (\<lambda>message. (None, [Error [''Error serializing data:'', message]]))
      in case source of
           JStr source_text \<Rightarrow>
             (let escapedSource = escape_pipes source_text;
                  v = get_property data ''value'';
                  serializedValue =
                    (if typeof_object v \<and> v \<noteq> JNull
                     then Inr (case JSON_stringify rt v of None \<Rightarrow> ''undefined'' | Some json \<Rightarrow> json)
                     else (case v of JStr str \<Rightarrow> Inr (escape_pipes str) | _ \<Rightarrow> ToString rt v))
              in case serializedValue of
                   Inl message \<Rightarrow> failed message
                 | Inr value_text \<Rightarrow>
                     (case ToString rt (get_property data ''path'') of
                        Inl message \<Rightarrow> failed message
                      | Inr path_text \<Rightarrow>
                          let serialized = Number_string rt time @ ''|'' @ path_text @ ''|''
                                @ escapedSource @ ''|'' @ value_text @ [CHR 0x0A]
                          in (Some serialized, [Debug [''Serialized data: '' @ trim serialized]])))
         | _ \<Rightarrow> failed (not_a_function rt))"

subsection \<open>The plugin as a reactive system\<close>

text \<open>
  What the host can do to the plugin: call \<^verbatim>\<open>start\<close> and \<^verbatim>\<open>stop\<close>, deliver a value (with
  the readings of the clock during the call), emit an event of a socket made for a category,
  fire a timeout. Each runs one handler to its end before the next begins.
\<close>

datatype input =
    Start "sample_rates option" "string option"
  | Stop "string option"
  | Value clock valueObj
  | SocketConnect category
  | SocketError category string
  | SocketClose category nat bool
  | Timeout nat

fun step :: "runtime \<Rightarrow> plugin \<Rightarrow> input \<Rightarrow> plugin \<times> effect list" where
  "step rt st (Start opts bus) = start st opts bus"
| "step rt st (Stop unsubscribe) = stop st unsubscribe"
| "step rt st (Value clk v) = processValueObj rt clk st v"
| "step rt st (SocketConnect category) = on_connect st category"
| "step rt st (SocketError category message) = on_error st category message"
| "step rt st (SocketClose category h hadError) = on_close st category h hadError"
| "step rt st (Timeout h) = on_timeout st h"

fun run :: "runtime \<Rightarrow> plugin \<Rightarrow> input list \<Rightarrow> plugin \<times> effect list" where
  "run rt st [] = (st, [])"
| "run rt st (i # inputs) =
     (let (st1, effects1) = step rt st i;
          (st2, effects2) = run rt st1 inputs
      in (st2, effects1 @ effects2))"

subsection \<open>Reading a list of effects\<close>

text \<open>The socket writes among the effects, in order: the socket and the text written.\<close>

fun writes :: "effect list \<Rightarrow> (nat \<times> string) list" where
  "writes [] = []"
| "writes (SocketWrite h line # effects) = (h, line) # writes effects"
| "writes (e # effects) = writes effects"

text \<open>The sockets that \<^verbatim>\<open>net.createConnection\<close> was called for.\<close>

fun connections :: "effect list \<Rightarrow> nat list" where
  "connections [] = []"
| "connections (CreateConnection h p # effects) = h # connections effects"
| "connections (e # effects) = connections effects"

text \<open>The timeouts set.\<close>

fun timeouts :: "effect list \<Rightarrow> nat list" where
  "timeouts [] = []"
| "timeouts (SetTimeout h delay # effects) = h # timeouts effects"
| "timeouts (e # effects) = timeouts effects"

text \<open>The exceptions that leave a handler.\<close>

fun thrown :: "effect list \<Rightarrow> string list" where
  "thrown [] = []"
| "thrown (Throw message # effects) = message # thrown effects"
| "thrown (e # effects) = thrown effects"

subsection \<open>The numbers of the examples\<close>

text \<open>
  The doubles that JavaScript reads the literals \<^verbatim>\<open>5.1\<close> and \<^verbatim>\<open>12.3\<close> as
  (\<^verbatim>\<open>0x1.4666666666666p+2\<close> and \<^verbatim>\<open>0x1.899999999999ap+3\<close>), and prints as \<^verbatim>\<open>5.1\<close> and
  \<^verbatim>\<open>12.3\<close>.
\<close>

definition double_5_1 :: real where
  "double_5_1 = 2871044762448691 / 562949953421312"

definition double_12_3 :: real where
  "double_12_3 = 3462142213541069 / 281474976710656"

subsection \<open>A runtime for the examples\<close>

text \<open>
  How Node answers on the few strings and numbers that the examples below use; they ask
  nothing else of it.
\<close>

definition example_runtime :: runtime where
  "example_runtime =
    \<lparr> Date_getTime =
        (\<lambda>s. if s = ''2023-09-11T18:48:43.000Z'' then Fin 1694458123000 else NaN),
      ToNumber_other = (\<lambda>v. Inr NaN),
      ToString_object = (\<lambda>v. Inr ''[object Object]''),
      Number_toString =
        (\<lambda>r. if r = double_5_1 then ''5.1'' else if r = double_12_3 then ''12.3'' else ''?''),
      Number_times = (\<lambda>a b. Fin (a * b)),
      not_a_function = ''not a function'' \<rparr>"

subsection \<open>The invariant of the reconnect timers\<close>

text \<open>
  No two armed timeouts share a handle; each armed timeout has a handle the host has given
  out, and is the one that \<^verbatim>\<open>reconnectTimers\<close> holds for its category.
\<close>

definition timers_ok :: "plugin \<Rightarrow> bool" where
  "timers_ok st \<longleftrightarrow>
     distinct (map fst (pending_timers st))
     \<and> list_all (\<lambda>(h, c). h < next_handle st \<and> current (reconnectTimers st) c = Some h)
          (pending_timers st)"

section \<open>Properties\<close>

subsection \<open>The matcher decides the words of an expression\<close>

lemma nullable_lang: "nullable r \<longleftrightarrow> [] \<in> lang r"
  by (induction r) (auto intro: star.none)

lemma lang_seq: "lang (seq r s) = lang (Seq r s)"
  by (induction r s rule: seq.induct) auto

lemma lang_alt: "lang (alt r s) = lang (Alt r s)"
  by (induction r s rule: alt.induct) auto

lemma star_Cons:
  "c # w \<in> star A \<longleftrightarrow> (\<exists>u v. w = u @ v \<and> c # u \<in> A \<and> v \<in> star A)"
proof
  assume "c # w \<in> star A"
  then show "\<exists>u v. w = u @ v \<and> c # u \<in> A \<and> v \<in> star A"
  proof (induction "c # w" arbitrary: w rule: star.induct)
    case (more u v)
    show ?case
    proof (cases u)
      case Nil
      with more show ?thesis by simp
    next
      case (Cons d u')
      with more.hyps have "w = u' @ v" "c # u' \<in> A" "v \<in> star A"
        by auto
      then show ?thesis by blast
    qed
  qed
next
  assume "\<exists>u v. w = u @ v \<and> c # u \<in> A \<and> v \<in> star A"
  then obtain u v where "w = u @ v" "c # u \<in> A" "v \<in> star A"
    by blast
  then have "(c # u) @ v \<in> star A"
    by (intro star.more)
  with \<open>w = u @ v\<close> show "c # w \<in> star A"
    by simp
qed

lemma lang_deriv: "w \<in> lang (deriv c r) \<longleftrightarrow> c # w \<in> lang r"
proof (induction r arbitrary: w)
  case (Seq r s)
  have "c # w \<in> lang (Seq r s) \<longleftrightarrow>
      ([] \<in> lang r \<and> c # w \<in> lang s) \<or> (\<exists>u v. w = u @ v \<and> c # u \<in> lang r \<and> v \<in> lang s)"
    by (auto simp: Cons_eq_append_conv)
  with Seq show ?case
    by (auto simp: lang_seq lang_alt nullable_lang)
next
  case (Star r)
  then show ?case
    by (auto simp: lang_seq star_Cons)
qed (auto simp: lang_alt)

lemma lang_derivs: "w \<in> lang (derivs u r) \<longleftrightarrow> u @ w \<in> lang r"
  by (induction u arbitrary: r) (simp_all add: lang_deriv)

theorem test_lang: "test pattern path \<longleftrightarrow> path \<in> lang pattern"
  using lang_derivs [of "[]" path pattern] by (simp add: test_def nullable_lang)

subsection \<open>Classification\<close>




text \<open>
  C3. A path that matches one of the dump patterns (is a word of it) is classified
  \<^verbatim>\<open>'dump'\<close>, whatever patterns of the sensor, position or state lists it matches as well:
  the dump list is tried first and its match ends the classification.
\<close>

theorem dump_precedence:
  "(\<exists>pattern \<in> set dump_patterns. path \<in> lang pattern) \<Longrightarrow> categorizeData path = Dump"
  by (simp add: categorizeData_def list_ex_iff test_lang)

text \<open>
  The path \<^verbatim>\<open>electrical.batteries.279.voltage\<close> matches the fourth dump pattern and the
  sensor pattern for voltages; the lists after the dump list would make it a sensor value.
\<close>

theorem dump_precedence_witness:
  "(\<exists>pattern \<in> set dump_patterns. ''electrical.batteries.279.voltage'' \<in> lang pattern)
   \<and> (\<exists>pattern \<in> set sensor_patterns. ''electrical.batteries.279.voltage'' \<in> lang pattern)
   \<and> first_category CATEGORY_PATTERNS ''electrical.batteries.279.voltage'' = Sensor
   \<and> categorizeData ''electrical.batteries.279.voltage'' = Dump"
proof -
  have "\<exists>pattern \<in> set dump_patterns. test pattern ''electrical.batteries.279.voltage''"
    by code_simp
  then have d: "\<exists>pattern \<in> set dump_patterns. ''electrical.batteries.279.voltage'' \<in> lang pattern"
    by (simp add: test_lang)
  have "\<exists>pattern \<in> set sensor_patterns. test pattern ''electrical.batteries.279.voltage''"
    by code_simp
  then have s: "\<exists>pattern \<in> set sensor_patterns. ''electrical.batteries.279.voltage'' \<in> lang pattern"
    by (simp add: test_lang)
  have f: "first_category CATEGORY_PATTERNS ''electrical.batteries.279.voltage'' = Sensor"
    by code_simp
  from d s f dump_precedence [OF d] show ?thesis by blast
qed

subsection \<open>The throttle\<close>



subsection \<open>Examples evaluated\<close>

lemma empty_path_dump: "categorizeData [] = Dump"
  by code_simp

lemma speed_sensor: "categorizeData ''navigation.speedOverGround'' = Sensor"
  by code_simp

lemma position_position: "categorizeData ''navigation.position'' = Position"
  by code_simp

lemma started:
  "fst (start initial None None) =
     \<lparr> options = \<lparr>positionSampleRate = None, sensorSampleRate = None, stateSampleRate = None\<rparr>,
       deltaStreamUnsubscribe = True,
       socketClients =
         [ (Sensor, Some \<lparr>handle = 0, destroyed = False, writable = True\<rparr>),
           (Position, Some \<lparr>handle = 1, destroyed = False, writable = True\<rparr>),
           (State, Some \<lparr>handle = 2, destroyed = False, writable = True\<rparr>) ],
       reconnectTimers = [],
       isShuttingDown = False,
       lastTransmissionTimes = (\<lambda>p. None),
       pending_timers = [],
       next_handle = 3 \<rparr>"
  by (simp add: start_def initial_def SOCKET_CONFIG_def connectToSocket_def subscribeToDeltas_def
      Let_def numeral_3_eq_3)

subsection \<open>One value from the bus to the socket\<close>

text \<open>
  C1. The value \<^verbatim>\<open>{path: "navigation.speedOverGround", value: 5.1, timestamp: 1694458123,
  $source: "gps.0"}\<close> (its 5.1 being the double \<open>double_5_1\<close>) is classified as a sensor value. When its path has no record in the
  throttle, the sensor interval is the default of 2000 ms (the clock being at least that far
  from the epoch) and the sensor socket is there, writable and not destroyed, the plugin
  writes one line to that socket and nothing to any other: the JSON text of
  \<^verbatim>\<open>{path: "navigation.speedOverGround", time: 1694458123000, value: 5.1, source: "gps.0"}\<close>
  and a newline. The same value again, 500 ms after the time recorded for the first, changes
  nothing and writes nothing.
\<close>

theorem end_to_end:
  assumes v: "v = \<lparr> raw_path = Some ''navigation.speedOverGround'', raw_value = JNum (Fin double_5_1),
                     raw_timestamp = JNum (Fin 1694458123), raw_source = JStr ''gps.0'' \<rparr>"
    and unseen: "lastTransmissionTimes st ''navigation.speedOverGround'' = None"
    and rate: "sensorSampleRate (options st) = None"
    and now: "2000 \<le> now_shouldTransmit clk"
    and sock: "current (socketClients st) Sensor = Some s" "\<not> destroyed s" "writable s"
    and later: "now_shouldTransmit clk' = now_lastTransmission clk + 500"
  shows "categorizeData ''navigation.speedOverGround'' = Sensor
    \<and> writes (snd (processValueObj rt clk st v)) =
        [(handle s,
          the (JSON_stringify rt
                 (JObj [(''path'', JStr ''navigation.speedOverGround''),
                        (''time'', JNum (Fin 1694458123000)),
                        (''value'', JNum (Fin double_5_1)),
                        (''source'', JStr ''gps.0'')]))
          @ [CHR 0x0A])]
    \<and> the (JSON_stringify rt
                 (JObj [(''path'', JStr ''navigation.speedOverGround''),
                        (''time'', JNum (Fin 1694458123000)),
                        (''value'', JNum (Fin double_5_1)),
                        (''source'', JStr ''gps.0'')]))
        = ''{\"path\":\"navigation.speedOverGround\",\"time\":1694458123000,\"value\":''
          @ Number_toString rt double_5_1 @ '',\"source\":\"gps.0\"}''
    \<and> processValueObj rt clk' (fst (processValueObj rt clk st v)) v
        = (fst (processValueObj rt clk st v), [])"
proof -
  let ?path = "''navigation.speedOverGround''"
  let ?st1 = "st\<lparr>lastTransmissionTimes := (lastTransmissionTimes st)(?path \<mapsto> now_lastTransmission clk)\<rparr>"
  have allowed: "shouldTransmit st (now_shouldTransmit clk) ?path Sensor"
    using unseen rate now by (simp add: shouldTransmit_def Object_prototype_def or_default_def)
  have st1: "record_transmission st ?path (now_lastTransmission clk) = ?st1"
    by (simp add: record_transmission_def)
  have first: "processValueObj rt clk st v =
      (?st1, writeToSocket rt ?st1 Sensor
               (measurementData ?path (Fin 1694458123000) (JNum (Fin double_5_1)) (JStr ''gps.0'')))"
    using allowed by (simp add: v processValueObj_def speed_sensor transmit_def st1 Let_def
        safe_integer_def double_5_1_def double_12_3_def)
  have w: "writes (writeToSocket rt ?st1 Sensor d) =
      [(handle s, the (JSON_stringify rt d) @ [CHR 0x0A])]" if "JSON_stringify rt d \<noteq> None" for d
    using sock that by (auto simp: writeToSocket_def Let_def)
  have refused: "\<not> shouldTransmit ?st1 (now_shouldTransmit clk') ?path Sensor"
    using rate later by (simp add: shouldTransmit_def or_default_def)
  have second: "processValueObj rt clk' ?st1 v = (?st1, [])"
    using refused by (simp add: v processValueObj_def speed_sensor transmit_def)
  have line_text: "the (JSON_stringify rt (measurementData ?path (Fin 1694458123000) (JNum (Fin double_5_1)) (JStr ''gps.0'')))
        = ''{\"path\":\"navigation.speedOverGround\",\"time\":1694458123000,\"value\":''
          @ Number_toString rt double_5_1 @ '',\"source\":\"gps.0\"}''"
    by (simp add: measurementData_def quote_def quote_char_def safe_integer_def double_5_1_def
        double_12_3_def show_int_def digits.simps)
  show ?thesis
    using first second line_text w [of "measurementData ?path (Fin 1694458123000) (JNum (Fin double_5_1)) (JStr ''gps.0'')"]
    by (simp add: speed_sensor measurementData_def)
qed

text \<open>
  The plugin just started, all three sockets writable; Node prints the number as \<^verbatim>\<open>5.1\<close>.
\<close>

theorem end_to_end_witness:
  "lastTransmissionTimes (fst (start initial None None)) ''navigation.speedOverGround'' = None
   \<and> sensorSampleRate (options (fst (start initial None None))) = None
   \<and> current (socketClients (fst (start initial None None))) Sensor
       = Some \<lparr>handle = 0, destroyed = False, writable = True\<rparr>
   \<and> writes (snd (processValueObj example_runtime
         \<lparr>now_shouldTransmit = 1694458123456, now_lastTransmission = 1694458123457,
           now_timestamp = 1694458123457\<rparr>
         (fst (start initial None None))
         \<lparr> raw_path = Some ''navigation.speedOverGround'', raw_value = JNum (Fin double_5_1),
           raw_timestamp = JNum (Fin 1694458123), raw_source = JStr ''gps.0'' \<rparr>))
       = [(0, ''{\"path\":\"navigation.speedOverGround\",\"time\":1694458123000,\"value\":5.1,\"source\":\"gps.0\"}''
              @ [CHR 0x0A])]
   \<and> snd (processValueObj example_runtime
         \<lparr>now_shouldTransmit = 1694458123957, now_lastTransmission = 1694458123957,
           now_timestamp = 1694458123957\<rparr>
         (fst (processValueObj example_runtime
           \<lparr>now_shouldTransmit = 1694458123456, now_lastTransmission = 1694458123457,
             now_timestamp = 1694458123457\<rparr>
           (fst (start initial None None))
           \<lparr> raw_path = Some ''navigation.speedOverGround'', raw_value = JNum (Fin double_5_1),
             raw_timestamp = JNum (Fin 1694458123), raw_source = JStr ''gps.0'' \<rparr>))
         \<lparr> raw_path = Some ''navigation.speedOverGround'', raw_value = JNum (Fin double_5_1),
           raw_timestamp = JNum (Fin 1694458123), raw_source = JStr ''gps.0'' \<rparr>)
       = []"
proof -
  let ?st = "fst (start initial None None)"
  let ?s = "\<lparr>handle = 0, destroyed = False, writable = True\<rparr>"
  let ?clk = "\<lparr>now_shouldTransmit = 1694458123456, now_lastTransmission = 1694458123457,
           now_timestamp = 1694458123457\<rparr>"
  let ?clk' = "\<lparr>now_shouldTransmit = 1694458123957, now_lastTransmission = 1694458123957,
           now_timestamp = 1694458123957\<rparr>"
  have unseen: "lastTransmissionTimes ?st ''navigation.speedOverGround'' = None"
    by (simp add: started)
  have rate: "sensorSampleRate (options ?st) = None"
    by (simp add: started)
  have now: "2000 \<le> now_shouldTransmit ?clk"
    by simp
  have sock: "current (socketClients ?st) Sensor = Some ?s"
    by (simp add: started current_def)
  have later: "now_shouldTransmit ?clk' = now_lastTransmission ?clk + 500"
    by simp
  from end_to_end [OF refl unseen rate now sock _ _ later, of example_runtime]
  show ?thesis
    using unseen rate sock by (simp add: example_runtime_def)
qed


subsection \<open>The validity filter\<close>

text \<open>
  C9. \<^verbatim>\<open>processValueObj\<close> drops a value at its first test, with no effect at all, when the
  path is missing or empty, the value is \<^verbatim>\<open>undefined\<close>, or the timestamp is falsy; so a
  timestamp that is the number 0 or the empty string is dropped though it is there. Any other
  value goes on to classification: one with a dump path is logged as discarded, one with a
  sensor or state path reaches the throttle. A value of \<^verbatim>\<open>null\<close> is among those that pass, and
  is handed to \<^verbatim>\<open>writeToSocket\<close> when the throttle allows it.
\<close>

theorem validity_filter:
  "(raw_path v = None \<or> raw_path v = Some [] \<or> raw_value v = JUndefined
      \<or> \<not> truthy (raw_timestamp v) \<longrightarrow>
        processValueObj rt clk st v = (st, []))
   \<and> (raw_timestamp v = JNum (Fin 0) \<or> raw_timestamp v = JStr [] \<longrightarrow>
        processValueObj rt clk st v = (st, []))
   \<and> (raw_path v = Some path \<and> path \<noteq> [] \<and> raw_value v \<noteq> JUndefined
        \<and> truthy (raw_timestamp v) \<longrightarrow>
        (categorizeData path = Dump \<longrightarrow>
           processValueObj rt clk st v =
             (st, [Debug [''Discarding dump category data for path: '' @ path]]))
        \<and> (categorizeData path = Sensor \<or> categorizeData path = State \<longrightarrow>
             processValueObj rt clk st v = transmit rt clk st v path (categorizeData path)))
   \<and> (raw_path v = Some path \<and> categorizeData path = Sensor \<and> raw_value v = JNull
        \<and> truthy (raw_timestamp v)
        \<and> shouldTransmit st (now_shouldTransmit clk) path Sensor \<longrightarrow>
        processValueObj rt clk st v =
          (record_transmission st path (now_lastTransmission clk),
           writeToSocket rt (record_transmission st path (now_lastTransmission clk)) Sensor
             (measurementData path (timestampMs rt (now_timestamp clk) (raw_timestamp v)) JNull
                (if truthy (raw_source v) then raw_source v else JStr ''unknown''))))"
proof -
  have rejected: "raw_path v = None \<or> raw_path v = Some [] \<or> raw_value v = JUndefined
      \<or> \<not> truthy (raw_timestamp v) \<Longrightarrow> processValueObj rt clk st v = (st, [])"
    by (auto simp: processValueObj_def split: option.splits)
  have zero: "raw_timestamp v = JNum (Fin 0) \<or> raw_timestamp v = JStr [] \<Longrightarrow>
      \<not> truthy (raw_timestamp v)"
    by auto
  have dump: "raw_path v = Some path \<Longrightarrow> path \<noteq> [] \<Longrightarrow> raw_value v \<noteq> JUndefined
      \<Longrightarrow> truthy (raw_timestamp v) \<Longrightarrow> categorizeData path = Dump \<Longrightarrow>
      processValueObj rt clk st v =
        (st, [Debug [''Discarding dump category data for path: '' @ path]])"
    by (simp add: processValueObj_def)
  have passes: "raw_path v = Some path \<Longrightarrow> path \<noteq> [] \<Longrightarrow> raw_value v \<noteq> JUndefined
      \<Longrightarrow> truthy (raw_timestamp v) \<Longrightarrow> categorizeData path = Sensor \<or> categorizeData path = State \<Longrightarrow>
      processValueObj rt clk st v = transmit rt clk st v path (categorizeData path)"
    by (auto simp: processValueObj_def)
  have null: "raw_path v = Some path \<Longrightarrow> categorizeData path = Sensor \<Longrightarrow> raw_value v = JNull
      \<Longrightarrow> truthy (raw_timestamp v) \<Longrightarrow> shouldTransmit st (now_shouldTransmit clk) path Sensor \<Longrightarrow>
      processValueObj rt clk st v =
          (record_transmission st path (now_lastTransmission clk),
           writeToSocket rt (record_transmission st path (now_lastTransmission clk)) Sensor
             (measurementData path (timestampMs rt (now_timestamp clk) (raw_timestamp v)) JNull
                (if truthy (raw_source v) then raw_source v else JStr ''unknown'')))"
    using empty_path_dump by (auto simp: processValueObj_def transmit_def Let_def)
  from rejected zero dump passes null show ?thesis
    by blast
qed

text \<open>
  On the plugin just started: a timestamp of 0 and an empty timestamp leave everything as it
  was; the value \<^verbatim>\<open>null\<close> is written to the sensor socket.
\<close>

theorem validity_filter_witness:
  "processValueObj example_runtime
      \<lparr>now_shouldTransmit = 1694458123456, now_lastTransmission = 1694458123456,
        now_timestamp = 1694458123456\<rparr>
      (fst (start initial None None))
      \<lparr> raw_path = Some ''navigation.speedOverGround'', raw_value = JNum (Fin double_5_1),
        raw_timestamp = JNum (Fin 0), raw_source = JStr ''gps.0'' \<rparr>
     = (fst (start initial None None), [])
   \<and> processValueObj example_runtime
      \<lparr>now_shouldTransmit = 1694458123456, now_lastTransmission = 1694458123456,
        now_timestamp = 1694458123456\<rparr>
      (fst (start initial None None))
      \<lparr> raw_path = Some ''navigation.speedOverGround'', raw_value = JNum (Fin double_5_1),
        raw_timestamp = JStr [], raw_source = JStr ''gps.0'' \<rparr>
     = (fst (start initial None None), [])
   \<and> writes (snd (processValueObj example_runtime
      \<lparr>now_shouldTransmit = 1694458123456, now_lastTransmission = 1694458123456,
        now_timestamp = 1694458123456\<rparr>
      (fst (start initial None None))
      \<lparr> raw_path = Some ''navigation.speedOverGround'', raw_value = JNull,
        raw_timestamp = JNum (Fin 1694458123), raw_source = JStr ''gps.0'' \<rparr>))
     = [(0, ''{\"path\":\"navigation.speedOverGround\",\"time\":1694458123000,\"value\":null,\"source\":\"gps.0\"}''
            @ [CHR 0x0A])]"
proof -
  let ?clk = "\<lparr>now_shouldTransmit = 1694458123456, now_lastTransmission = 1694458123456,
        now_timestamp = 1694458123456\<rparr>"
  let ?st = "fst (start initial None None)"
  let ?v = "\<lambda>x t. \<lparr> raw_path = Some ''navigation.speedOverGround'', raw_value = x,
        raw_timestamp = t, raw_source = JStr ''gps.0'' \<rparr>"
  have allowed: "shouldTransmit ?st (now_shouldTransmit ?clk) ''navigation.speedOverGround'' Sensor"
    by (simp add: started shouldTransmit_def Object_prototype_def or_default_def)
  from validity_filter [of "?v (JNum (Fin double_5_1)) (JNum (Fin 0))" example_runtime ?clk ?st]
  have a: "processValueObj example_runtime ?clk ?st (?v (JNum (Fin double_5_1)) (JNum (Fin 0))) = (?st, [])"
    by simp
  from validity_filter [of "?v (JNum (Fin double_5_1)) (JStr [])" example_runtime ?clk ?st]
  have b: "processValueObj example_runtime ?clk ?st (?v (JNum (Fin double_5_1)) (JStr [])) = (?st, [])"
    by simp
  from validity_filter [of "?v JNull (JNum (Fin 1694458123))" example_runtime ?clk ?st
      "''navigation.speedOverGround''"] allowed speed_sensor
  have c: "writes (snd (processValueObj example_runtime ?clk ?st (?v JNull (JNum (Fin 1694458123)))))
     = [(0, ''{\"path\":\"navigation.speedOverGround\",\"time\":1694458123000,\"value\":null,\"source\":\"gps.0\"}''
            @ [CHR 0x0A])]"
    by (simp add: started transmit_def Let_def shouldTransmit_def Object_prototype_def or_default_def
        record_transmission_def writeToSocket_def current_def measurementData_def
        quote_def quote_char_def safe_integer_def double_5_1_def double_12_3_def show_int_def digits.simps)
  from a b c show ?thesis by simp
qed


subsection \<open>The filter on positions\<close>

lemma position_not_empty: "categorizeData path = Position \<Longrightarrow> path \<noteq> []"
  using empty_path_dump by auto

text \<open>
  C4. A value classified as a position whose value is an object with a latitude or a
  longitude that \<^verbatim>\<open>Number\<close> turns into 0 is dropped: the plugin is left as it was, throttle
  state included, whatever the clock and the throttle say, and all it does is log the drop at
  debug level (or nothing, when the timestamp is falsy and the validity filter has dropped
  the value before). When neither coordinate is 0 the filter lets the value through to the
  throttle.
\<close>

theorem degenerate_position:
  assumes "raw_path v = Some path"
    and "categorizeData path = Position"
    and "raw_value v = JObj props"
    and "Number rt (get_property (JObj props) ''latitude'') = Inr latitude"
    and "Number rt (get_property (JObj props) ''longitude'') = Inr longitude"
  shows "(latitude = Fin 0 \<or> longitude = Fin 0 \<longrightarrow>
           processValueObj rt clk st v =
             (st, if truthy (raw_timestamp v) then [Debug [''Discarding position with zero lat/lon'']]
                  else []))
       \<and> (latitude \<noteq> Fin 0 \<and> longitude \<noteq> Fin 0 \<and> truthy (raw_timestamp v) \<longrightarrow>
           processValueObj rt clk st v = transmit rt clk st v path Position)"
  using assms position_not_empty [of path]
  by (auto simp: processValueObj_def zero_lat_lon_def)

text \<open>
  The three positions of the specification: \<^verbatim>\<open>{latitude: 0, longitude: 12.3}\<close> and
  \<^verbatim>\<open>{latitude: 45.0, longitude: 0}\<close> are dropped, \<^verbatim>\<open>{latitude: 45.0, longitude: 12.3}\<close> is
  written to the position socket.
\<close>

theorem degenerate_position_witness:
  "processValueObj example_runtime
      \<lparr>now_shouldTransmit = 1694458123456, now_lastTransmission = 1694458123456,
        now_timestamp = 1694458123456\<rparr>
      (fst (start initial None None))
      \<lparr> raw_path = Some ''navigation.position'',
        raw_value = JObj [(''latitude'', JNum (Fin 0)), (''longitude'', JNum (Fin double_12_3))],
        raw_timestamp = JNum (Fin 1694458123), raw_source = JStr ''gps.0'' \<rparr>
     = (fst (start initial None None), [Debug [''Discarding position with zero lat/lon'']])
   \<and> processValueObj example_runtime
      \<lparr>now_shouldTransmit = 1694458123456, now_lastTransmission = 1694458123456,
        now_timestamp = 1694458123456\<rparr>
      (fst (start initial None None))
      \<lparr> raw_path = Some ''navigation.position'',
        raw_value = JObj [(''latitude'', JNum (Fin 45)), (''longitude'', JNum (Fin 0))],
        raw_timestamp = JNum (Fin 1694458123), raw_source = JStr ''gps.0'' \<rparr>
     = (fst (start initial None None), [Debug [''Discarding position with zero lat/lon'']])
   \<and> writes (snd (processValueObj example_runtime
      \<lparr>now_shouldTransmit = 1694458123456, now_lastTransmission = 1694458123456,
        now_timestamp = 1694458123456\<rparr>
      (fst (start initial None None))
      \<lparr> raw_path = Some ''navigation.position'',
        raw_value = JObj [(''latitude'', JNum (Fin 45)), (''longitude'', JNum (Fin double_12_3))],
        raw_timestamp = JNum (Fin 1694458123), raw_source = JStr ''gps.0'' \<rparr>))
     = [(1, ''{\"path\":\"navigation.position\",\"time\":1694458123000,\"value\":{\"latitude\":45,\"longitude\":12.3},\"source\":\"gps.0\"}''
            @ [CHR 0x0A])]"
proof -
  let ?clk = "\<lparr>now_shouldTransmit = 1694458123456, now_lastTransmission = 1694458123456,
        now_timestamp = 1694458123456\<rparr>"
  let ?st = "fst (start initial None None)"
  let ?v = "\<lambda>props. \<lparr> raw_path = Some ''navigation.position'', raw_value = JObj props,
        raw_timestamp = JNum (Fin 1694458123), raw_source = JStr ''gps.0'' \<rparr>"
  have a: "processValueObj example_runtime ?clk ?st
        (?v [(''latitude'', JNum (Fin 0)), (''longitude'', JNum (Fin double_12_3))])
      = (?st, [Debug [''Discarding position with zero lat/lon'']])"
    using degenerate_position [of "?v [(''latitude'', JNum (Fin 0)), (''longitude'', JNum (Fin double_12_3))]"
        "''navigation.position''" _ example_runtime "Fin 0" "Fin double_12_3" ?clk ?st]
      position_position
    by simp
  have b: "processValueObj example_runtime ?clk ?st
        (?v [(''latitude'', JNum (Fin 45)), (''longitude'', JNum (Fin 0))])
      = (?st, [Debug [''Discarding position with zero lat/lon'']])"
    using degenerate_position [of "?v [(''latitude'', JNum (Fin 45)), (''longitude'', JNum (Fin 0))]"
        "''navigation.position''" _ example_runtime "Fin 45" "Fin 0" ?clk ?st]
      position_position
    by simp
  have c: "writes (snd (processValueObj example_runtime ?clk ?st
        (?v [(''latitude'', JNum (Fin 45)), (''longitude'', JNum (Fin double_12_3))])))
     = [(1, ''{\"path\":\"navigation.position\",\"time\":1694458123000,\"value\":{\"latitude\":45,\"longitude\":12.3},\"source\":\"gps.0\"}''
            @ [CHR 0x0A])]"
    using degenerate_position [of "?v [(''latitude'', JNum (Fin 45)), (''longitude'', JNum (Fin double_12_3))]"
        "''navigation.position''" _ example_runtime "Fin 45" "Fin double_12_3" ?clk ?st]
      position_position
    by (simp add: started transmit_def Let_def shouldTransmit_def Object_prototype_def or_default_def
        record_transmission_def writeToSocket_def current_def measurementData_def example_runtime_def
        quote_def quote_char_def safe_integer_def double_5_1_def double_12_3_def show_int_def digits.simps)
  from a b c show ?thesis by simp
qed

text \<open>
  C10. In the filter on positions \<^verbatim>\<open>Number(null)\<close> is 0 and \<^verbatim>\<open>Number(undefined)\<close> is
  \<open>NaN\<close>. So a position whose latitude is \<^verbatim>\<open>null\<close>, or whose longitude is \<^verbatim>\<open>null\<close>, is dropped;
  a coordinate that is missing does not make the filter drop the position, which then goes on
  to the throttle unless the other coordinate is 0.
\<close>

theorem null_and_missing_coordinates:
  assumes "raw_path v = Some path"
    and "categorizeData path = Position"
    and "raw_value v = JObj props"
    and "truthy (raw_timestamp v)"
  shows "Number rt JNull = Inr (Fin 0) \<and> Number rt JUndefined = Inr NaN
       \<and> (get_property (JObj props) ''latitude'' = JNull \<longrightarrow>
            processValueObj rt clk st v = (st, [Debug [''Discarding position with zero lat/lon'']]))
       \<and> (get_property (JObj props) ''longitude'' = JNull
            \<and> Number rt (get_property (JObj props) ''latitude'') = Inr latitude \<longrightarrow>
            processValueObj rt clk st v = (st, [Debug [''Discarding position with zero lat/lon'']]))
       \<and> (get_property (JObj props) ''latitude'' = JUndefined
            \<and> Number rt (get_property (JObj props) ''longitude'') = Inr longitude \<longrightarrow>
            processValueObj rt clk st v =
              (if longitude = Fin 0 then (st, [Debug [''Discarding position with zero lat/lon'']])
               else transmit rt clk st v path Position))
       \<and> (get_property (JObj props) ''longitude'' = JUndefined
            \<and> Number rt (get_property (JObj props) ''latitude'') = Inr latitude \<longrightarrow>
            processValueObj rt clk st v =
              (if latitude = Fin 0 then (st, [Debug [''Discarding position with zero lat/lon'']])
               else transmit rt clk st v path Position))
       \<and> (get_property (JObj props) ''latitude'' = JUndefined
            \<and> get_property (JObj props) ''longitude'' = JUndefined \<longrightarrow>
            processValueObj rt clk st v = transmit rt clk st v path Position)"
  using assms position_not_empty [of path]
  by (auto simp: processValueObj_def zero_lat_lon_def)


text \<open>
  \<^verbatim>\<open>{latitude: null, longitude: 12.3}\<close> and \<^verbatim>\<open>{latitude: 45, longitude: null}\<close> are dropped;
  \<^verbatim>\<open>{longitude: 12.3}\<close>, with no latitude, is written to the position socket.
\<close>

theorem null_and_missing_coordinates_witness:
  "processValueObj example_runtime
      \<lparr>now_shouldTransmit = 1694458123456, now_lastTransmission = 1694458123456,
        now_timestamp = 1694458123456\<rparr>
      (fst (start initial None None))
      \<lparr> raw_path = Some ''navigation.position'',
        raw_value = JObj [(''latitude'', JNull), (''longitude'', JNum (Fin double_12_3))],
        raw_timestamp = JNum (Fin 1694458123), raw_source = JStr ''gps.0'' \<rparr>
     = (fst (start initial None None), [Debug [''Discarding position with zero lat/lon'']])
   \<and> processValueObj example_runtime
      \<lparr>now_shouldTransmit = 1694458123456, now_lastTransmission = 1694458123456,
        now_timestamp = 1694458123456\<rparr>
      (fst (start initial None None))
      \<lparr> raw_path = Some ''navigation.position'',
        raw_value = JObj [(''latitude'', JNum (Fin 45)), (''longitude'', JNull)],
        raw_timestamp = JNum (Fin 1694458123), raw_source = JStr ''gps.0'' \<rparr>
     = (fst (start initial None None), [Debug [''Discarding position with zero lat/lon'']])
   \<and> writes (snd (processValueObj example_runtime
      \<lparr>now_shouldTransmit = 1694458123456, now_lastTransmission = 1694458123456,
        now_timestamp = 1694458123456\<rparr>
      (fst (start initial None None))
      \<lparr> raw_path = Some ''navigation.position'',
        raw_value = JObj [(''longitude'', JNum (Fin double_12_3))],
        raw_timestamp = JNum (Fin 1694458123), raw_source = JStr ''gps.0'' \<rparr>))
     = [(1, ''{\"path\":\"navigation.position\",\"time\":1694458123000,\"value\":{\"longitude\":12.3},\"source\":\"gps.0\"}''
            @ [CHR 0x0A])]"
proof -
  let ?clk = "\<lparr>now_shouldTransmit = 1694458123456, now_lastTransmission = 1694458123456,
        now_timestamp = 1694458123456\<rparr>"
  let ?st = "fst (start initial None None)"
  let ?v = "\<lambda>props. \<lparr> raw_path = Some ''navigation.position'', raw_value = JObj props,
        raw_timestamp = JNum (Fin 1694458123), raw_source = JStr ''gps.0'' \<rparr>"
  have a: "processValueObj example_runtime ?clk ?st
        (?v [(''latitude'', JNull), (''longitude'', JNum (Fin double_12_3))])
      = (?st, [Debug [''Discarding position with zero lat/lon'']])"
    using null_and_missing_coordinates [where v = "?v [(''latitude'', JNull), (''longitude'', JNum (Fin double_12_3))]"
        and path = "''navigation.position''" and rt = example_runtime and clk = ?clk and st = ?st]
      position_position
    by simp
  have b: "processValueObj example_runtime ?clk ?st
        (?v [(''latitude'', JNum (Fin 45)), (''longitude'', JNull)])
      = (?st, [Debug [''Discarding position with zero lat/lon'']])"
    using null_and_missing_coordinates [where v = "?v [(''latitude'', JNum (Fin 45)), (''longitude'', JNull)]"
        and path = "''navigation.position''" and rt = example_runtime and clk = ?clk and st = ?st
        and latitude = "Fin 45"]
      position_position
    by simp
  have c: "writes (snd (processValueObj example_runtime ?clk ?st
        (?v [(''longitude'', JNum (Fin double_12_3))])))
     = [(1, ''{\"path\":\"navigation.position\",\"time\":1694458123000,\"value\":{\"longitude\":12.3},\"source\":\"gps.0\"}''
            @ [CHR 0x0A])]"
    using null_and_missing_coordinates [where v = "?v [(''longitude'', JNum (Fin double_12_3))]"
        and path = "''navigation.position''" and rt = example_runtime and clk = ?clk and st = ?st
        and longitude = "Fin double_12_3"]
      position_position
    by (simp add: started transmit_def Let_def shouldTransmit_def Object_prototype_def or_default_def
        record_transmission_def writeToSocket_def current_def measurementData_def example_runtime_def
        quote_def quote_char_def safe_integer_def double_5_1_def double_12_3_def show_int_def digits.simps)
  from a b c show ?thesis by simp
qed

subsection \<open>Writing when the socket is there, dropping when it is not\<close>

lemma writes_writeToSocket:
  "writes (writeToSocket rt st category data) =
     (case current (socketClients st) category of
        None \<Rightarrow> []
      | Some s \<Rightarrow>
          if destroyed s \<or> \<not> writable s then []
          else [(handle s,
                 (case JSON_stringify rt data of None \<Rightarrow> ''undefined'' | Some json \<Rightarrow> json)
                 @ [CHR 0x0A])])"
  by (simp add: writeToSocket_def Let_def split: option.splits)

lemma thrown_writeToSocket: "thrown (writeToSocket rt st category data) = []"
  by (simp add: writeToSocket_def Let_def split: option.splits)

lemma socketClients_record_transmission [simp]:
  "socketClients (record_transmission st path t) = socketClients st"
  by (simp add: record_transmission_def)

lemma thrown_processValueObj: "thrown (snd (processValueObj rt clk st v)) = []"
  by (simp add: processValueObj_def transmit_def Let_def thrown_writeToSocket
      split: option.splits sum.splits bool.splits)

text \<open>
  C6. \<^verbatim>\<open>writeToSocket\<close> writes the serialized record to the socket of the category when
  that socket exists, is not destroyed and is writable, and only then. Otherwise all it does
  is log at debug level that the socket is not available: nothing is written, and nothing of
  the record is kept (the plugin is as it was before the value, but for the throttle's time
  of the path), so there is nothing to retry. No exception leaves \<^verbatim>\<open>processValueObj\<close>.
\<close>

theorem write_iff_available:
  "(current (socketClients st) category = Some s \<and> \<not> destroyed s \<and> writable s \<longrightarrow>
      writeToSocket rt st category data =
        [ Debug [''Writing to socket:'',
                 (case JSON_stringify rt data of None \<Rightarrow> ''undefined'' | Some json \<Rightarrow> json)
                 @ [CHR 0x0A]],
          SocketWrite (handle s)
            ((case JSON_stringify rt data of None \<Rightarrow> ''undefined'' | Some json \<Rightarrow> json)
             @ [CHR 0x0A]) ])
   \<and> ((\<forall>s. current (socketClients st) category = Some s \<longrightarrow> destroyed s \<or> \<not> writable s) \<longrightarrow>
      writeToSocket rt st category data =
        [Debug [''Socket not available for category '' @ category_name category
                  @ '', skipping data write'']])
   \<and> (writes (writeToSocket rt st category data) \<noteq> [] \<longleftrightarrow>
        (\<exists>s. current (socketClients st) category = Some s \<and> \<not> destroyed s \<and> writable s))
   \<and> thrown (snd (processValueObj rt clk st v)) = []
   \<and> (raw_path v = Some path
        \<and> (\<forall>s. current (socketClients st) (categorizeData path) = Some s \<longrightarrow>
               destroyed s \<or> \<not> writable s) \<longrightarrow>
        writes (snd (processValueObj rt clk st v)) = []
        \<and> (fst (processValueObj rt clk st v) = st
            \<or> fst (processValueObj rt clk st v)
                = record_transmission st path (now_lastTransmission clk)))"
proof -
  have available: "current (socketClients st) category = Some s \<Longrightarrow> \<not> destroyed s \<Longrightarrow> writable s \<Longrightarrow>
      writeToSocket rt st category data =
        [ Debug [''Writing to socket:'',
                 (case JSON_stringify rt data of None \<Rightarrow> ''undefined'' | Some json \<Rightarrow> json)
                 @ [CHR 0x0A]],
          SocketWrite (handle s)
            ((case JSON_stringify rt data of None \<Rightarrow> ''undefined'' | Some json \<Rightarrow> json)
             @ [CHR 0x0A]) ]"
    by (simp add: writeToSocket_def Let_def)
  have unavailable: "\<forall>s. current (socketClients st) category = Some s \<longrightarrow> destroyed s \<or> \<not> writable s \<Longrightarrow>
      writeToSocket rt st category data =
        [Debug [''Socket not available for category '' @ category_name category
                  @ '', skipping data write'']]"
    by (auto simp: writeToSocket_def Let_def split: option.splits)
  have iff: "writes (writeToSocket rt st category data) \<noteq> [] \<longleftrightarrow>
        (\<exists>s. current (socketClients st) category = Some s \<and> \<not> destroyed s \<and> writable s)"
    by (auto simp: writes_writeToSocket split: option.splits)
  have pipeline: "writes (snd (processValueObj rt clk st v)) = []
        \<and> (fst (processValueObj rt clk st v) = st
            \<or> fst (processValueObj rt clk st v)
                = record_transmission st path (now_lastTransmission clk))"
    if "raw_path v = Some path"
      and "\<forall>s. current (socketClients st) (categorizeData path) = Some s \<longrightarrow>
               destroyed s \<or> \<not> writable s"
    using that
    by (auto simp: processValueObj_def transmit_def Let_def writes_writeToSocket
        split: option.splits sum.splits bool.splits)
  from available unavailable iff pipeline thrown_processValueObj [of rt clk st v]
  show ?thesis by blast
qed


text \<open>
  The plugin just started writes the record to the sensor socket; once that socket has
  closed, the same value only yields the debug line.
\<close>

lemma sensor_closed:
  "fst (on_close (fst (start initial None None)) Sensor 0 False) =
     \<lparr> options = \<lparr>positionSampleRate = None, sensorSampleRate = None, stateSampleRate = None\<rparr>,
       deltaStreamUnsubscribe = True,
       socketClients =
         [ (Sensor, Some \<lparr>handle = 0, destroyed = True, writable = False\<rparr>),
           (Position, Some \<lparr>handle = 1, destroyed = False, writable = True\<rparr>),
           (State, Some \<lparr>handle = 2, destroyed = False, writable = True\<rparr>) ],
       reconnectTimers = [(Sensor, Some 3)],
       isShuttingDown = False,
       lastTransmissionTimes = (\<lambda>p. None),
       pending_timers = [(3, Sensor)],
       next_handle = 4 \<rparr>"
  by (simp add: started on_close_def mark_closed_def current_def scheduleReconnection_def Let_def)

theorem write_iff_available_witness:
  "current (socketClients (fst (start initial None None))) Sensor
      = Some \<lparr>handle = 0, destroyed = False, writable = True\<rparr>
   \<and> writeToSocket example_runtime (fst (start initial None None)) Sensor
        (measurementData ''navigation.speedOverGround'' (Fin 1694458123000) (JNum (Fin double_5_1))
           (JStr ''gps.0''))
      = [ Debug [''Writing to socket:'',
                 ''{\"path\":\"navigation.speedOverGround\",\"time\":1694458123000,\"value\":5.1,\"source\":\"gps.0\"}''
                 @ [CHR 0x0A]],
          SocketWrite 0
            (''{\"path\":\"navigation.speedOverGround\",\"time\":1694458123000,\"value\":5.1,\"source\":\"gps.0\"}''
             @ [CHR 0x0A]) ]
   \<and> current (socketClients (fst (on_close (fst (start initial None None)) Sensor 0 False))) Sensor
      = Some \<lparr>handle = 0, destroyed = True, writable = False\<rparr>
   \<and> snd (processValueObj example_runtime
        \<lparr>now_shouldTransmit = 1694458123456, now_lastTransmission = 1694458123456,
          now_timestamp = 1694458123456\<rparr>
        (fst (on_close (fst (start initial None None)) Sensor 0 False))
        \<lparr> raw_path = Some ''navigation.speedOverGround'', raw_value = JNum (Fin double_5_1),
          raw_timestamp = JNum (Fin 1694458123), raw_source = JStr ''gps.0'' \<rparr>)
      = [Debug [''Socket not available for category sensor, skipping data write'']]"
proof -
  let ?open = "fst (start initial None None)"
  let ?closed = "fst (on_close (fst (start initial None None)) Sensor 0 False)"
  let ?clk = "\<lparr>now_shouldTransmit = 1694458123456, now_lastTransmission = 1694458123456,
          now_timestamp = 1694458123456\<rparr>"
  let ?v = "\<lparr> raw_path = Some ''navigation.speedOverGround'', raw_value = JNum (Fin double_5_1),
          raw_timestamp = JNum (Fin 1694458123), raw_source = JStr ''gps.0'' \<rparr>"
  let ?m = "measurementData ''navigation.speedOverGround'' (Fin 1694458123000) (JNum (Fin double_5_1))
           (JStr ''gps.0'')"
  have o: "current (socketClients ?open) Sensor = Some \<lparr>handle = 0, destroyed = False, writable = True\<rparr>"
    by (simp add: started current_def)
  have c: "current (socketClients ?closed) Sensor = Some \<lparr>handle = 0, destroyed = True, writable = False\<rparr>"
    by (simp add: sensor_closed current_def)
  have a: "writeToSocket example_runtime ?open Sensor ?m
      = [ Debug [''Writing to socket:'',
                 ''{\"path\":\"navigation.speedOverGround\",\"time\":1694458123000,\"value\":5.1,\"source\":\"gps.0\"}''
                 @ [CHR 0x0A]],
          SocketWrite 0
            (''{\"path\":\"navigation.speedOverGround\",\"time\":1694458123000,\"value\":5.1,\"source\":\"gps.0\"}''
             @ [CHR 0x0A]) ]"
    using write_iff_available [where st = ?open and category = Sensor and rt = example_runtime
        and s = "\<lparr>handle = 0, destroyed = False, writable = True\<rparr>" and data = ?m] o
    by (simp add: measurementData_def example_runtime_def
        quote_def quote_char_def safe_integer_def double_5_1_def double_12_3_def show_int_def digits.simps)
  have b: "snd (processValueObj example_runtime ?clk ?closed ?v)
      = [Debug [''Socket not available for category sensor, skipping data write'']]"
    by (simp add: processValueObj_def speed_sensor transmit_def Let_def shouldTransmit_def
        Object_prototype_def or_default_def sensor_closed safe_integer_def double_5_1_def double_12_3_def
        record_transmission_def writeToSocket_def current_def)
  from o c a b show ?thesis by simp
qed


subsection \<open>The format on the wire\<close>

lemma JSON_stringify_None: "JSON_stringify rt v = None \<longleftrightarrow> v = JUndefined"
proof (cases v)
  case (JNum n)
  then show ?thesis by (cases n) simp_all
qed simp_all

lemma truthy_defined: "truthy v \<Longrightarrow> v \<noteq> JUndefined"
  by auto

lemma JSON_measurementData:
  assumes "v \<noteq> JUndefined" and "source \<noteq> JUndefined"
  shows "JSON_stringify rt (measurementData path time v source) =
    Some (''{'' @ quote ''path'' @ '':'' @ quote path
          @ '','' @ quote ''time'' @ '':'' @ the (JSON_stringify rt (JNum time))
          @ '','' @ quote ''value'' @ '':'' @ the (JSON_stringify rt v)
          @ '','' @ quote ''source'' @ '':'' @ the (JSON_stringify rt source) @ ''}'')"
proof -
  obtain a where a: "JSON_stringify rt v = Some a"
    using assms(1) JSON_stringify_None [of rt v] by auto
  obtain b where b: "JSON_stringify rt source = Some b"
    using assms(2) JSON_stringify_None [of rt source] by auto
  obtain c where c: "JSON_stringify rt (JNum time) = Some c"
    using JSON_stringify_None [of rt "JNum time"] by auto
  show ?thesis
    using a b c by (simp add: measurementData_def)
qed

lemma writes_processValueObj:
  "writes (snd (processValueObj rt clk st v)) = []
   \<or> (\<exists>path s. raw_path v = Some path \<and> raw_value v \<noteq> JUndefined
         \<and> current (socketClients st) (categorizeData path) = Some s
         \<and> writes (snd (processValueObj rt clk st v)) =
             [(handle s,
               the (JSON_stringify rt
                      (measurementData path
                         (timestampMs rt (now_timestamp clk) (raw_timestamp v))
                         (raw_value v)
                         (if truthy (raw_source v) then raw_source v else JStr ''unknown'')))
               @ [CHR 0x0A])])"
proof (cases "writes (snd (processValueObj rt clk st v)) = []")
  case True
  then show ?thesis by simp
next
  case False
  then obtain path where p: "raw_path v = Some path"
    by (cases "raw_path v") (auto simp: processValueObj_def)
  from False p have d: "raw_value v \<noteq> JUndefined"
    by (auto simp: processValueObj_def)
  let ?src = "if truthy (raw_source v) then raw_source v else JStr ''unknown''"
  let ?m = "measurementData path (timestampMs rt (now_timestamp clk) (raw_timestamp v))
              (raw_value v) ?src"
  have "?src \<noteq> JUndefined"
    by auto
  with d have j: "JSON_stringify rt ?m \<noteq> None"
    by (simp add: JSON_measurementData)
  from False p have t: "snd (processValueObj rt clk st v) =
      writeToSocket rt (record_transmission st path (now_lastTransmission clk))
        (categorizeData path) ?m"
    by (auto simp: processValueObj_def transmit_def Let_def
        split: if_splits sum.splits bool.splits)
  from False t obtain s where s: "current (socketClients st) (categorizeData path) = Some s"
    and w: "writes (snd (processValueObj rt clk st v)) =
             [(handle s, (case JSON_stringify rt ?m of None \<Rightarrow> ''undefined'' | Some json \<Rightarrow> json)
                          @ [CHR 0x0A])]"
    by (auto simp: writes_writeToSocket split: option.splits if_splits)
  from j w have "writes (snd (processValueObj rt clk st v)) =
             [(handle s, the (JSON_stringify rt ?m) @ [CHR 0x0A])]"
    by auto
  with p d s show ?thesis by blast
qed

text \<open>
  C8, as the code has it. Whatever the options are, \<^verbatim>\<open>processValueObj\<close> writes nothing or
  one line, and that line is format (a): \<^verbatim>\<open>JSON.stringify\<close> of the measurement, a newline
  after it; the JSON text is one object with the keys \<^verbatim>\<open>path\<close>, \<^verbatim>\<open>time\<close>, \<^verbatim>\<open>value\<close> and
  \<^verbatim>\<open>source\<close>, in that order. Nothing in it depends on the options: no option selects
  format (b), which only \<^verbatim>\<open>serializeData\<close> computes, and no function calls that.
\<close>

theorem wire_format:
  "(writes (snd (processValueObj rt clk st v)) = []
    \<or> (\<exists>path s. raw_path v = Some path
         \<and> current (socketClients st) (categorizeData path) = Some s
         \<and> writes (snd (processValueObj rt clk st v)) =
             [(handle s,
               the (JSON_stringify rt
                      (measurementData path
                         (timestampMs rt (now_timestamp clk) (raw_timestamp v))
                         (raw_value v)
                         (if truthy (raw_source v) then raw_source v else JStr ''unknown'')))
               @ [CHR 0x0A])]))
   \<and> (x \<noteq> JUndefined \<and> source \<noteq> JUndefined \<longrightarrow>
        JSON_stringify rt (measurementData path' time x source) =
          Some (''{\"path\":'' @ quote path'
                @ '',\"time\":'' @ the (JSON_stringify rt (JNum time))
                @ '',\"value\":'' @ the (JSON_stringify rt x)
                @ '',\"source\":'' @ the (JSON_stringify rt source) @ ''}''))"
proof -
  have "JSON_stringify rt (measurementData path' time x source) =
          Some (''{\"path\":'' @ quote path'
                @ '',\"time\":'' @ the (JSON_stringify rt (JNum time))
                @ '',\"value\":'' @ the (JSON_stringify rt x)
                @ '',\"source\":'' @ the (JSON_stringify rt source) @ ''}'')"
    if "x \<noteq> JUndefined" "source \<noteq> JUndefined"
    using that by (simp add: JSON_measurementData quote_def quote_char_def)
  with writes_processValueObj [of rt clk st v] show ?thesis
    by blast
qed

text \<open>A string value and a source with a pipe in them: JSON escapes neither.\<close>

theorem wire_format_witness:
  "JSON_stringify example_runtime
     (measurementData ''navigation.speedOverGround'' (Fin 1694458123000) (JStr ''a|b'')
        (JStr ''gps|0''))
   = Some ''{\"path\":\"navigation.speedOverGround\",\"time\":1694458123000,\"value\":\"a|b\",\"source\":\"gps|0\"}''"
  using wire_format [where x = "JStr ''a|b''" and source = "JStr ''gps|0''" and rt = example_runtime
      and path' = "''navigation.speedOverGround''" and time = "Fin 1694458123000"]
  by (simp add: quote_def quote_char_def safe_integer_def double_5_1_def double_12_3_def
      show_int_def digits.simps)

text \<open>
  Against C8 as stated (format (b) selectable by configuration). For the value
  \<^verbatim>\<open>{path: "navigation.speedOverGround", value: 5.1, timestamp: 1694458123, $source: "gps|0"}\<close>
  format (b) is the line \<^verbatim>\<open>1694458123456|navigation.speedOverGround|gps\|0|5.1\<close> (its
  time is the clock's: the measurement has a \<^verbatim>\<open>time\<close> and \<^verbatim>\<open>serializeData\<close> reads
  \<^verbatim>\<open>data.timestamp\<close>). With all three options of the schema set the plugin writes the JSON
  line, and no options make it write the line of format (b).
\<close>

lemma started_with:
  "fst (start initial opts None) =
     \<lparr> options = (case opts of
                    None \<Rightarrow> \<lparr>positionSampleRate = None, sensorSampleRate = None, stateSampleRate = None\<rparr>
                  | Some given \<Rightarrow> given),
       deltaStreamUnsubscribe = True,
       socketClients =
         [ (Sensor, Some \<lparr>handle = 0, destroyed = False, writable = True\<rparr>),
           (Position, Some \<lparr>handle = 1, destroyed = False, writable = True\<rparr>),
           (State, Some \<lparr>handle = 2, destroyed = False, writable = True\<rparr>) ],
       reconnectTimers = [],
       isShuttingDown = False,
       lastTransmissionTimes = (\<lambda>p. None),
       pending_timers = [],
       next_handle = 3 \<rparr>"
  by (simp add: start_def initial_def SOCKET_CONFIG_def connectToSocket_def subscribeToDeltas_def
      Let_def numeral_3_eq_3)

lemma compact_line:
  "fst (serializeData example_runtime 1694458123456
          (measurementData ''navigation.speedOverGround'' (Fin 1694458123000) (JNum (Fin double_5_1))
             (JStr ''gps|0'')))
     = Some (''1694458123456|navigation.speedOverGround|gps'' @ [CHR 0x5C] @ ''|0|5.1'' @ [CHR 0x0A])"
  by (simp add: serializeData_def measurementData_def Let_def escape_pipes_def example_runtime_def
      safe_integer_def double_5_1_def double_12_3_def show_int_def digits.simps)

theorem compact_format_not_selectable:
  "fst (serializeData example_runtime 1694458123456
          (measurementData ''navigation.speedOverGround'' (Fin 1694458123000) (JNum (Fin double_5_1))
             (JStr ''gps|0'')))
     = Some (''1694458123456|navigation.speedOverGround|gps'' @ [CHR 0x5C] @ ''|0|5.1'' @ [CHR 0x0A])
   \<and> writes (snd (processValueObj example_runtime
        \<lparr>now_shouldTransmit = 1694458123456, now_lastTransmission = 1694458123456,
          now_timestamp = 1694458123456\<rparr>
        (fst (start initial
               (Some \<lparr>positionSampleRate = Some (Fin 1000), sensorSampleRate = Some (Fin 2000),
                       stateSampleRate = Some (Fin 500)\<rparr>) None))
        \<lparr> raw_path = Some ''navigation.speedOverGround'', raw_value = JNum (Fin double_5_1),
          raw_timestamp = JNum (Fin 1694458123), raw_source = JStr ''gps|0'' \<rparr>))
     = [(0, ''{\"path\":\"navigation.speedOverGround\",\"time\":1694458123000,\"value\":5.1,\"source\":\"gps|0\"}''
            @ [CHR 0x0A])]
   \<and> \<not> (\<exists>opts. writes (snd (processValueObj example_runtime
        \<lparr>now_shouldTransmit = 1694458123456, now_lastTransmission = 1694458123456,
          now_timestamp = 1694458123456\<rparr>
        (fst (start initial opts None))
        \<lparr> raw_path = Some ''navigation.speedOverGround'', raw_value = JNum (Fin double_5_1),
          raw_timestamp = JNum (Fin 1694458123), raw_source = JStr ''gps|0'' \<rparr>))
     = [(0, ''1694458123456|navigation.speedOverGround|gps'' @ [CHR 0x5C] @ ''|0|5.1''
            @ [CHR 0x0A])])"
proof -
  let ?clk = "\<lparr>now_shouldTransmit = 1694458123456, now_lastTransmission = 1694458123456,
          now_timestamp = 1694458123456\<rparr>"
  let ?v = "\<lparr> raw_path = Some ''navigation.speedOverGround'', raw_value = JNum (Fin double_5_1),
          raw_timestamp = JNum (Fin 1694458123), raw_source = JStr ''gps|0'' \<rparr>"
  let ?json = "''{\"path\":\"navigation.speedOverGround\",\"time\":1694458123000,\"value\":5.1,\"source\":\"gps|0\"}''
            @ [CHR 0x0A]"
  have any: "writes (snd (processValueObj example_runtime ?clk (fst (start initial opts None)) ?v))
      = (if shouldTransmit (fst (start initial opts None)) 1694458123456
              ''navigation.speedOverGround'' Sensor
         then [(0, ?json)] else [])" for opts
    by (simp add: processValueObj_def speed_sensor transmit_def Let_def started_with
        record_transmission_def writeToSocket_def current_def measurementData_def
        example_runtime_def safe_integer_def double_5_1_def double_12_3_def quote_def quote_char_def show_int_def digits.simps)
  have configured: "shouldTransmit (fst (start initial
               (Some \<lparr>positionSampleRate = Some (Fin 1000), sensorSampleRate = Some (Fin 2000),
                       stateSampleRate = Some (Fin 500)\<rparr>) None)) 1694458123456
              ''navigation.speedOverGround'' Sensor"
    by (simp add: started_with shouldTransmit_def Object_prototype_def or_default_def)
  have never: "writes (snd (processValueObj example_runtime ?clk (fst (start initial opts None)) ?v))
      \<noteq> [(0, ''1694458123456|navigation.speedOverGround|gps'' @ [CHR 0x5C] @ ''|0|5.1''
            @ [CHR 0x0A])]" for opts
    by (simp add: any)
  from compact_line any [of "Some \<lparr>positionSampleRate = Some (Fin 1000), sensorSampleRate = Some (Fin 2000),
                       stateSampleRate = Some (Fin 500)\<rparr>"] configured never
  show ?thesis by simp
qed

subsection \<open>A timestamp that is no date\<close>

text \<open>
  C5 does not hold of the code. A timestamp that is a string goes through
  \<^verbatim>\<open>new Date(timestamp).getTime()\<close> and \<^verbatim>\<open>Math.floor\<close> only: when the string is no date the
  time of the measurement is \<open>NaN\<close>, not the reading of the clock, and the record is written
  with \<^verbatim>\<open>"time":null\<close>. The fallback to \<^verbatim>\<open>Date.now()\<close> is taken only by a timestamp that is
  neither a string nor a number.
\<close>

theorem unparseable_timestamp_is_NaN:
  assumes "raw_path v = Some path"
    and "categorizeData path = Sensor"
    and "raw_value v \<noteq> JUndefined"
    and "raw_timestamp v = JStr s"
    and "s \<noteq> []"
    and "Date_getTime rt s = NaN"
    and "shouldTransmit st (now_shouldTransmit clk) path Sensor"
  shows "timestampMs rt (now_timestamp clk) (raw_timestamp v) = NaN
    \<and> processValueObj rt clk st v =
        (record_transmission st path (now_lastTransmission clk),
         writeToSocket rt (record_transmission st path (now_lastTransmission clk)) Sensor
           (measurementData path NaN (raw_value v)
              (if truthy (raw_source v) then raw_source v else JStr ''unknown'')))
    \<and> JSON_stringify rt (JNum NaN) = Some ''null''"
  using assms empty_path_dump
  by (auto simp: processValueObj_def transmit_def Let_def)

theorem unparseable_timestamp_is_NaN_witness:
  "Date_getTime example_runtime ''not a date'' = NaN
   \<and> writes (snd (processValueObj example_runtime
        \<lparr>now_shouldTransmit = 1694458123456, now_lastTransmission = 1694458123456,
          now_timestamp = 1694458123456\<rparr>
        (fst (start initial None None))
        \<lparr> raw_path = Some ''navigation.speedOverGround'', raw_value = JNum (Fin double_5_1),
          raw_timestamp = JStr ''not a date'', raw_source = JStr ''gps.0'' \<rparr>))
     = [(0, ''{\"path\":\"navigation.speedOverGround\",\"time\":null,\"value\":5.1,\"source\":\"gps.0\"}''
            @ [CHR 0x0A])]"
proof -
  let ?clk = "\<lparr>now_shouldTransmit = 1694458123456, now_lastTransmission = 1694458123456,
          now_timestamp = 1694458123456\<rparr>"
  let ?st = "fst (start initial None None)"
  let ?v = "\<lparr> raw_path = Some ''navigation.speedOverGround'', raw_value = JNum (Fin double_5_1),
          raw_timestamp = JStr ''not a date'', raw_source = JStr ''gps.0'' \<rparr>"
  have d: "Date_getTime example_runtime ''not a date'' = NaN"
    by (simp add: example_runtime_def)
  have allowed: "shouldTransmit ?st (now_shouldTransmit ?clk) ''navigation.speedOverGround'' Sensor"
    by (simp add: started shouldTransmit_def Object_prototype_def or_default_def)
  from unparseable_timestamp_is_NaN [where v = ?v and path = "''navigation.speedOverGround''"
      and s = "''not a date''" and rt = example_runtime and st = ?st and clk = ?clk,
      OF _ speed_sensor _ _ _ d allowed]
  have "snd (processValueObj example_runtime ?clk ?st ?v) =
      writeToSocket example_runtime
        (record_transmission ?st ''navigation.speedOverGround'' (now_lastTransmission ?clk)) Sensor
        (measurementData ''navigation.speedOverGround'' NaN (JNum (Fin double_5_1)) (JStr ''gps.0''))"
    by simp
  then show ?thesis
    using d
    by (simp add: started record_transmission_def writeToSocket_def current_def Let_def
        measurementData_def example_runtime_def safe_integer_def double_5_1_def double_12_3_def quote_def quote_char_def)
qed


subsection \<open>Reconnection\<close>

lemma current_assign: "current (assign t k v) k' = (if k' = k then v else current t k')"
  by (induction t) (auto simp: current_def)

lemma current_keys: "current t k = Some v \<Longrightarrow> k \<in> set (map fst t)"
  by (auto simp: current_def split: option.splits dest: map_of_SomeD intro: rev_image_eqI)

lemma timers_okI:
  assumes "distinct (map fst (pending_timers st))"
    and "\<And>h c. (h, c) \<in> set (pending_timers st) \<Longrightarrow>
           h < next_handle st \<and> current (reconnectTimers st) c = Some h"
  shows "timers_ok st"
  using assms by (auto simp: timers_ok_def list_all_iff)

lemma timers_okD:
  assumes "timers_ok st" and "(h, c) \<in> set (pending_timers st)"
  shows "h < next_handle st" and "current (reconnectTimers st) c = Some h"
  using assms by (auto simp: timers_ok_def list_all_iff)

lemma timers_ok_distinct: "timers_ok st \<Longrightarrow> distinct (map fst (pending_timers st))"
  by (simp add: timers_ok_def)

lemma timers_ok_frame:
  assumes "timers_ok st"
    and "pending_timers st' = pending_timers st"
    and "reconnectTimers st' = reconnectTimers st"
    and "next_handle st \<le> next_handle st'"
  shows "timers_ok st'"
  using assms by (auto simp: timers_ok_def list_all_iff)

lemma timers_ok_remove:
  assumes ok: "timers_ok st"
    and cur: "current (reconnectTimers st) category = Some h"
  shows "timers_ok (st\<lparr> pending_timers := filter (\<lambda>(h', c). h' \<noteq> h) (pending_timers st),
                        reconnectTimers := assign (reconnectTimers st) category None \<rparr>)"
proof (rule timers_okI)
  show "distinct (map fst (pending_timers (st\<lparr> pending_timers := filter (\<lambda>(h', c). h' \<noteq> h) (pending_timers st),
                        reconnectTimers := assign (reconnectTimers st) category None \<rparr>)))"
    using timers_ok_distinct [OF ok] by (simp add: distinct_map_filter)
next
  fix h' c
  assume "(h', c) \<in> set (pending_timers (st\<lparr> pending_timers := filter (\<lambda>(h', c). h' \<noteq> h) (pending_timers st),
                        reconnectTimers := assign (reconnectTimers st) category None \<rparr>))"
  then have mem: "(h', c) \<in> set (pending_timers st)" and ne: "h' \<noteq> h"
    by auto
  from timers_okD [OF ok mem] cur ne have "c \<noteq> category"
    by auto
  with timers_okD [OF ok mem]
  show "h' < next_handle (st\<lparr> pending_timers := filter (\<lambda>(h', c). h' \<noteq> h) (pending_timers st),
                        reconnectTimers := assign (reconnectTimers st) category None \<rparr>)
      \<and> current (reconnectTimers (st\<lparr> pending_timers := filter (\<lambda>(h', c). h' \<noteq> h) (pending_timers st),
                        reconnectTimers := assign (reconnectTimers st) category None \<rparr>)) c = Some h'"
    by (simp add: current_assign)
qed

lemma timers_ok_connect: "timers_ok st \<Longrightarrow> timers_ok (fst (connectToSocket st category))"
  by (auto simp: connectToSocket_def Let_def intro: timers_ok_frame)

lemma timers_ok_schedule:
  assumes ok: "timers_ok st"
  shows "timers_ok (fst (scheduleReconnection st category))"
proof (cases "isShuttingDown st \<or> current (reconnectTimers st) category \<noteq> None")
  case True
  with ok show ?thesis by (auto simp: scheduleReconnection_def)
next
  case False
  let ?st' = "st\<lparr> reconnectTimers := assign (reconnectTimers st) category (Some (next_handle st)),
                 pending_timers := pending_timers st @ [(next_handle st, category)],
                 next_handle := Suc (next_handle st) \<rparr>"
  have "timers_ok ?st'"
  proof (rule timers_okI)
    have "next_handle st \<notin> fst ` set (pending_timers st)"
      using timers_okD(1) [OF ok] by force
    then show "distinct (map fst (pending_timers ?st'))"
      using timers_ok_distinct [OF ok] by simp
  next
    fix h c
    assume "(h, c) \<in> set (pending_timers ?st')"
    then consider "(h, c) \<in> set (pending_timers st)" | "h = next_handle st" "c = category"
      by auto
    then show "h < next_handle ?st' \<and> current (reconnectTimers ?st') c = Some h"
    proof cases
      case 1
      from timers_okD [OF ok 1] False have "c \<noteq> category"
        by auto
      with timers_okD [OF ok 1] show ?thesis
        by (simp add: current_assign)
    next
      case 2
      then show ?thesis by (simp add: current_assign)
    qed
  qed
  with False show ?thesis
    by (simp add: scheduleReconnection_def Let_def)
qed

lemma timers_ok_clear: "timers_ok st \<Longrightarrow> timers_ok (fst (clear_timer st category))"
  by (auto simp: clear_timer_def split: option.splits intro: timers_ok_remove)

lemma timers_ok_destroy: "timers_ok st \<Longrightarrow> timers_ok (fst (destroy_socket st category))"
  by (auto simp: destroy_socket_def split: option.splits intro: timers_ok_frame)

lemma for_each_preserves:
  assumes "\<And>s c. P s \<Longrightarrow> P (fst (body s c))"
    and "P st"
  shows "P (fst (for_each body cs st))"
  using assms(2)
proof (induction cs arbitrary: st)
  case Nil
  then show ?case by simp
next
  case (Cons c cs)
  from Cons.prems have "P (fst (body st c))"
    by (rule assms(1))
  then have "P (fst (for_each body cs (fst (body st c))))"
    by (rule Cons.IH)
  then show ?case
    by (simp add: case_prod_unfold Let_def)
qed


lemma timers_ok_start: "timers_ok st \<Longrightarrow> timers_ok (fst (start st opts bus))"
proof -
  assume ok: "timers_ok st"
  let ?st1 = "st\<lparr>options :=
                  (case opts of
                     None \<Rightarrow> \<lparr>positionSampleRate = None, sensorSampleRate = None, stateSampleRate = None\<rparr>
                   | Some given \<Rightarrow> given)\<rparr>"
  have "timers_ok ?st1"
    using ok by (auto intro: timers_ok_frame)
  then have "timers_ok (fst (for_each connectToSocket (map fst SOCKET_CONFIG) ?st1))"
    by (rule for_each_preserves [where P = timers_ok, rotated]) (rule timers_ok_connect)
  then have "timers_ok (fst (subscribeToDeltas
      (fst (for_each connectToSocket (map fst SOCKET_CONFIG) ?st1)) bus))"
    by (auto simp: subscribeToDeltas_def split: option.splits intro: timers_ok_frame)
  then show ?thesis
    by (simp add: start_def Let_def case_prod_unfold)
qed

lemma timers_ok_close_all: "timers_ok st \<Longrightarrow> timers_ok (fst (close_all st before))"
proof -
  assume "timers_ok st"
  then have "timers_ok (fst (for_each destroy_socket (map fst (socketClients st)) st))"
    by (rule for_each_preserves [where P = timers_ok, rotated]) (rule timers_ok_destroy)
  then show ?thesis
    by (auto simp: close_all_def Let_def case_prod_unfold intro: timers_ok_frame)
qed

lemma timers_ok_stop: "timers_ok st \<Longrightarrow> timers_ok (fst (stop st unsubscribe))"
proof -
  assume ok: "timers_ok st"
  let ?st1 = "st\<lparr>isShuttingDown := True\<rparr>"
  let ?st2 = "fst (for_each clear_timer (map fst (reconnectTimers ?st1)) ?st1)"
  have "timers_ok ?st1"
    using ok by (auto intro: timers_ok_frame)
  then have two: "timers_ok ?st2"
    by (rule for_each_preserves [where P = timers_ok, rotated]) (rule timers_ok_clear)
  then have "timers_ok (?st2\<lparr>deltaStreamUnsubscribe := False\<rparr>)"
    by (auto intro: timers_ok_frame)
  with two show ?thesis
    by (auto simp: stop_def Let_def case_prod_unfold timers_ok_close_all split: option.splits)
qed

lemma processValueObj_frame:
  "pending_timers (fst (processValueObj rt clk st v)) = pending_timers st
   \<and> reconnectTimers (fst (processValueObj rt clk st v)) = reconnectTimers st
   \<and> next_handle (fst (processValueObj rt clk st v)) = next_handle st
   \<and> isShuttingDown (fst (processValueObj rt clk st v)) = isShuttingDown st"
  by (simp add: processValueObj_def transmit_def record_transmission_def Let_def
      split: option.splits sum.splits bool.splits)

lemma timers_ok_timeout: "timers_ok st \<Longrightarrow> timers_ok (fst (on_timeout st h))"
proof (cases "map_of (pending_timers st) h")
  case None
  assume "timers_ok st"
  with None show ?thesis by (simp add: on_timeout_def)
next
  case (Some category)
  assume ok: "timers_ok st"
  from Some have "(h, category) \<in> set (pending_timers st)"
    by (rule map_of_SomeD)
  then have "current (reconnectTimers st) category = Some h"
    by (rule timers_okD(2) [OF ok])
  then have one: "timers_ok (st\<lparr> pending_timers := filter (\<lambda>(h', c). h' \<noteq> h) (pending_timers st),
                        reconnectTimers := assign (reconnectTimers st) category None \<rparr>)"
    by (rule timers_ok_remove [OF ok])
  then show ?thesis
    using Some timers_ok_connect [OF one, of category]
    by (simp add: on_timeout_def Let_def case_prod_unfold)
qed

lemma timers_ok_on_close: "timers_ok st \<Longrightarrow> timers_ok (fst (on_close st category h hadError))"
proof -
  assume ok: "timers_ok st"
  let ?st1 = "st\<lparr>socketClients := mark_closed (socketClients st) category h\<rparr>"
  have "timers_ok ?st1"
    using ok by (auto intro: timers_ok_frame)
  then have "timers_ok (fst (scheduleReconnection ?st1 category))"
    by (rule timers_ok_schedule)
  with \<open>timers_ok ?st1\<close> show ?thesis
    by (simp add: on_close_def Let_def case_prod_unfold)
qed

lemma timers_ok_step: "timers_ok st \<Longrightarrow> timers_ok (fst (step rt st i))"
proof (cases i)
  case (Value clk v)
  assume "timers_ok st"
  then show ?thesis
    using Value processValueObj_frame [of rt clk st v]
    by (auto intro: timers_ok_frame)
qed (simp_all add: timers_ok_start timers_ok_stop timers_ok_timeout timers_ok_on_close
      on_connect_def on_error_def)

lemma timers_ok_run: "timers_ok st \<Longrightarrow> timers_ok (fst (run rt st inputs))"
proof (induction inputs arbitrary: st)
  case Nil
  then show ?case by simp
next
  case (Cons i inputs)
  from Cons.prems have "timers_ok (fst (step rt st i))"
    by (rule timers_ok_step)
  then have "timers_ok (fst (run rt (fst (step rt st i)) inputs))"
    by (rule Cons.IH)
  then show ?case
    by (simp add: case_prod_unfold Let_def)
qed

lemma timers_ok_initial: "timers_ok initial"
  by (simp add: timers_ok_def initial_def)


lemma clear_timer_other:
  "c \<noteq> category \<Longrightarrow>
     current (reconnectTimers (fst (clear_timer st category))) c = current (reconnectTimers st) c"
  by (simp add: clear_timer_def current_assign split: option.splits)

lemma clear_timer_same: "current (reconnectTimers (fst (clear_timer st category))) category = None"
  by (simp add: clear_timer_def current_assign split: option.splits)

lemma clear_timer_None:
  "current (reconnectTimers st) c = None \<Longrightarrow>
     current (reconnectTimers (fst (clear_timer st category))) c = None"
  by (cases "c = category") (simp_all add: clear_timer_same clear_timer_other)

lemma for_each_clear_None:
  "c \<in> set cs \<or> current (reconnectTimers st) c = None \<Longrightarrow>
     current (reconnectTimers (fst (for_each clear_timer cs st))) c = None"
proof (induction cs arbitrary: st)
  case Nil
  then show ?case by simp
next
  case (Cons c0 cs)
  have "c \<in> set cs \<or> current (reconnectTimers (fst (clear_timer st c0))) c = None"
    using Cons.prems by (auto simp: clear_timer_same clear_timer_None)
  then have "current (reconnectTimers (fst (for_each clear_timer cs (fst (clear_timer st c0))))) c = None"
    by (rule Cons.IH)
  then show ?case
    by (simp add: case_prod_unfold Let_def)
qed

lemma for_each_clear_effect:
  "current (reconnectTimers st) c = Some h \<Longrightarrow> c \<in> set cs \<Longrightarrow>
     ClearTimeout h \<in> set (snd (for_each clear_timer cs st))"
proof (induction cs arbitrary: st)
  case Nil
  then show ?case by simp
next
  case (Cons c0 cs)
  show ?case
  proof (cases "c0 = c")
    case True
    with Cons.prems(1) have "snd (clear_timer st c0) = [ClearTimeout h]"
      by (simp add: clear_timer_def)
    then show ?thesis
      by (simp add: case_prod_unfold Let_def)
  next
    case False
    with Cons.prems have "current (reconnectTimers (fst (clear_timer st c0))) c = Some h"
      and "c \<in> set cs"
      by (simp_all add: clear_timer_other)
    then have "ClearTimeout h \<in> set (snd (for_each clear_timer cs (fst (clear_timer st c0))))"
      by (rule Cons.IH)
    then show ?thesis
      by (simp add: case_prod_unfold Let_def)
  qed
qed

lemma timers_ok_none_pending:
  assumes "timers_ok st" and "\<And>c. current (reconnectTimers st) c = None"
  shows "pending_timers st = []"
proof (cases "pending_timers st")
  case Nil
  then show ?thesis .
next
  case (Cons p ps)
  obtain h c where "p = (h, c)"
    by (cases p)
  with Cons have "(h, c) \<in> set (pending_timers st)"
    by simp
  from timers_okD(2) [OF assms(1) this] assms(2) [of c] show ?thesis
    by simp
qed

lemma for_each_destroy_frame:
  "pending_timers (fst (for_each destroy_socket cs st)) = pending_timers st
   \<and> reconnectTimers (fst (for_each destroy_socket cs st)) = reconnectTimers st
   \<and> isShuttingDown (fst (for_each destroy_socket cs st)) = isShuttingDown st"
  by (induction cs arbitrary: st)
    (simp_all add: case_prod_unfold Let_def destroy_socket_def split: option.splits)

lemma close_all_frame:
  "pending_timers (fst (close_all st before)) = pending_timers st
   \<and> reconnectTimers (fst (close_all st before)) = reconnectTimers st
   \<and> isShuttingDown (fst (close_all st before)) = isShuttingDown st"
  using for_each_destroy_frame [of "map fst (socketClients st)" st]
  by (simp add: close_all_def case_prod_unfold Let_def)

lemma for_each_clear_shutting:
  "isShuttingDown (fst (for_each clear_timer cs st)) = isShuttingDown st"
  by (induction cs arbitrary: st)
    (simp_all add: case_prod_unfold Let_def clear_timer_def split: option.splits)

lemma close_all_effects: "\<exists>rest. snd (close_all st before) = before @ rest"
  by (simp add: close_all_def case_prod_unfold Let_def)

text \<open>What \<^verbatim>\<open>stop\<close> leaves of the timers, through either of its ends.\<close>

lemma stop_timers:
  "\<exists>rest.
     pending_timers (fst (stop st unsubscribe))
       = pending_timers (fst (for_each clear_timer (map fst (reconnectTimers st))
                               (st\<lparr>isShuttingDown := True\<rparr>)))
     \<and> reconnectTimers (fst (stop st unsubscribe))
       = reconnectTimers (fst (for_each clear_timer (map fst (reconnectTimers st))
                               (st\<lparr>isShuttingDown := True\<rparr>)))
     \<and> isShuttingDown (fst (stop st unsubscribe))
     \<and> snd (stop st unsubscribe)
       = (Debug [''Stopping SignalK Categorized Data Forwarder plugin'']
          # snd (for_each clear_timer (map fst (reconnectTimers st)) (st\<lparr>isShuttingDown := True\<rparr>)))
         @ rest"
proof -
  let ?st2 = "fst (for_each clear_timer (map fst (reconnectTimers st)) (st\<lparr>isShuttingDown := True\<rparr>))"
  let ?before = "Debug [''Stopping SignalK Categorized Data Forwarder plugin'']
          # snd (for_each clear_timer (map fst (reconnectTimers st)) (st\<lparr>isShuttingDown := True\<rparr>))"
  have down: "isShuttingDown ?st2"
    by (simp add: for_each_clear_shutting)
  consider (throws) message where "deltaStreamUnsubscribe ?st2" "unsubscribe = Some message"
    | (unsubscribed) "deltaStreamUnsubscribe ?st2" "unsubscribe = None"
    | (never) "\<not> deltaStreamUnsubscribe ?st2"
    by (cases unsubscribe) auto
  then show ?thesis
  proof cases
    case throws
    then have "stop st unsubscribe = (?st2, ?before @ [Unsubscribe, Throw message])"
      by (simp add: stop_def Let_def case_prod_unfold)
    with down show ?thesis by simp
  next
    case unsubscribed
    then have eq: "stop st unsubscribe =
        close_all (?st2\<lparr>deltaStreamUnsubscribe := False\<rparr>)
          (?before @ [Unsubscribe, Debug [''Unsubscribed from delta stream'']])"
      by (simp add: stop_def Let_def case_prod_unfold)
    obtain rest where "snd (stop st unsubscribe) =
        (?before @ [Unsubscribe, Debug [''Unsubscribed from delta stream'']]) @ rest"
      using close_all_effects eq by metis
    with eq down show ?thesis
      by (simp add: close_all_frame)
  next
    case never
    then have eq: "stop st unsubscribe = close_all ?st2 ?before"
      by (simp add: stop_def Let_def case_prod_unfold)
    obtain rest where "snd (stop st unsubscribe) = ?before @ rest"
      using close_all_effects eq by metis
    with eq down show ?thesis
      by (simp add: close_all_frame)
  qed
qed

lemma stop_no_pending:
  assumes "timers_ok st"
  shows "pending_timers (fst (stop st unsubscribe)) = []"
proof (rule timers_ok_none_pending)
  show "timers_ok (fst (stop st unsubscribe))"
    using assms by (rule timers_ok_stop)
next
  fix c
  let ?st1 = "st\<lparr>isShuttingDown := True\<rparr>"
  have "c \<in> set (map fst (reconnectTimers st)) \<or> current (reconnectTimers ?st1) c = None"
    using current_keys [of "reconnectTimers st" c] by (cases "current (reconnectTimers st) c") auto
  then have "current (reconnectTimers (fst (for_each clear_timer (map fst (reconnectTimers st)) ?st1))) c = None"
    by (rule for_each_clear_None)
  with stop_timers [of st unsubscribe]
  show "current (reconnectTimers (fst (stop st unsubscribe))) c = None"
    by auto
qed

lemma stop_clears:
  assumes "timers_ok st" and "(h, c) \<in> set (pending_timers st)"
  shows "ClearTimeout h \<in> set (snd (stop st unsubscribe))"
proof -
  let ?st1 = "st\<lparr>isShuttingDown := True\<rparr>"
  from timers_okD(2) [OF assms] have cur: "current (reconnectTimers ?st1) c = Some h"
    by simp
  then have "c \<in> set (map fst (reconnectTimers st))"
    using current_keys [of "reconnectTimers st" c h] by simp
  with cur have "ClearTimeout h \<in> set (snd (for_each clear_timer (map fst (reconnectTimers st)) ?st1))"
    by (rule for_each_clear_effect)
  with stop_timers [of st unsubscribe] show ?thesis
    by auto
qed


lemma connections_append [simp]: "connections (a @ b) = connections a @ connections b"
  by (induction a rule: connections.induct) simp_all

lemma connections_writeToSocket [simp]: "connections (writeToSocket rt st category data) = []"
  by (simp add: writeToSocket_def Let_def split: option.splits)

lemma connections_processValueObj [simp]: "connections (snd (processValueObj rt clk st v)) = []"
  by (simp add: processValueObj_def transmit_def Let_def split: option.splits sum.splits
      bool.splits)

lemma for_each_clear_connections [simp]: "connections (snd (for_each clear_timer cs st)) = []"
  by (induction cs arbitrary: st)
    (simp_all add: case_prod_unfold Let_def clear_timer_def split: option.splits)

lemma for_each_destroy_connections [simp]: "connections (snd (for_each destroy_socket cs st)) = []"
  by (induction cs arbitrary: st)
    (simp_all add: case_prod_unfold Let_def destroy_socket_def split: option.splits)

lemma connections_stop [simp]: "connections (snd (stop st unsubscribe)) = []"
  by (simp add: stop_def close_all_def Let_def case_prod_unfold split: option.splits)

lemma for_each_connect_shutting:
  "isShuttingDown st \<Longrightarrow> for_each connectToSocket cs st = (st, [])"
  by (induction cs) (simp_all add: connectToSocket_def)

lemma shutting_down_step:
  assumes "isShuttingDown st"
  shows "isShuttingDown (fst (step rt st i)) \<and> connections (snd (step rt st i)) = []"
proof (cases i)
  case (Start opts bus)
  with assms show ?thesis
    by (simp add: start_def for_each_connect_shutting subscribeToDeltas_def Let_def
        split: option.splits)
next
  case (Stop unsubscribe)
  with stop_timers [of st unsubscribe] show ?thesis
    by auto
next
  case (Value clk v)
  with assms processValueObj_frame [of rt clk st v] show ?thesis
    by simp
next
  case (SocketClose category h hadError)
  with assms show ?thesis
    by (simp add: on_close_def Let_def)
next
  case (Timeout h)
  with assms show ?thesis
    by (simp add: on_timeout_def Let_def split: option.splits)
qed (simp_all add: assms on_connect_def on_error_def)

lemma shutting_down_run:
  "isShuttingDown st \<Longrightarrow> connections (snd (run rt st inputs)) = []"
proof (induction inputs arbitrary: st)
  case Nil
  then show ?case by simp
next
  case (Cons i inputs)
  from shutting_down_step [OF Cons.prems, of rt i]
  have "isShuttingDown (fst (step rt st i))" and none: "connections (snd (step rt st i)) = []"
    by simp_all
  then have "connections (snd (run rt (fst (step rt st i)) inputs)) = []"
    using Cons.IH by blast
  with none show ?case
    by (simp add: case_prod_unfold Let_def)
qed

lemma at_most_one:
  assumes "distinct (map fst xs)" and "\<And>x. x \<in> set xs \<Longrightarrow> P x \<Longrightarrow> fst x = h"
  shows "length (filter P xs) \<le> 1"
  using assms
proof (induction xs)
  case Nil
  then show ?case by simp
next
  case (Cons x xs)
  show ?case
  proof (cases "P x")
    case True
    with Cons.prems have hx: "fst x = h" by simp
    have "filter P xs = []"
    proof (rule ccontr)
      assume "filter P xs \<noteq> []"
      then obtain y where y: "y \<in> set xs" "P y"
        by (metis filter_False)
      with Cons.prems(2) have "fst y = h" by simp
      with hx y(1) Cons.prems(1) show False
        by (auto simp: image_iff)
    qed
    with True show ?thesis by simp
  next
    case False
    with Cons show ?thesis by simp
  qed
qed

lemma one_timer_per_category:
  assumes "timers_ok st"
  shows "length (filter (\<lambda>(h, c). c = category) (pending_timers st)) \<le> 1"
proof (cases "current (reconnectTimers st) category")
  case None
  have "filter (\<lambda>(h, c). c = category) (pending_timers st) = []"
    using timers_okD(2) [OF assms] None by (auto simp: filter_empty_conv)
  then show ?thesis by simp
next
  case (Some h)
  show ?thesis
  proof (rule at_most_one [where h = h])
    show "distinct (map fst (pending_timers st))"
      using assms by (rule timers_ok_distinct)
  next
    fix x
    assume "x \<in> set (pending_timers st)" and "case x of (h, c) \<Rightarrow> c = category"
    then have "(fst x, category) \<in> set (pending_timers st)"
      by (auto simp: case_prod_unfold)
    from timers_okD(2) [OF assms this] Some show "fst x = h"
      by simp
  qed
qed

lemma close_while_pending:
  assumes "timers_ok st" and "(h, category) \<in> set (pending_timers st)"
  shows "pending_timers (fst (on_close st category h' hadError)) = pending_timers st"
    and "reconnectTimers (fst (on_close st category h' hadError)) = reconnectTimers st"
    and "timeouts (snd (on_close st category h' hadError)) = []"
  using timers_okD(2) [OF assms]
  by (simp_all add: on_close_def scheduleReconnection_def Let_def)


lemma close_schedules_one:
  assumes "\<not> isShuttingDown st" and "current (reconnectTimers st) category = None"
  shows "timeouts (snd (on_close st category h' hadError)) = [next_handle st]"
  using assms by (simp add: on_close_def scheduleReconnection_def Let_def)

text \<open>
  C7. In every state the plugin can reach, whatever the host has done to it, each category
  has at most one armed reconnect timer. A \<^verbatim>\<open>'close'\<close> event that finds no timer for its
  category (and no shutdown) sets exactly one; one that finds a timer armed sets none and
  leaves the timers as they are. \<^verbatim>\<open>stop\<close> clears every armed timer, the one of the category
  among them, and after \<^verbatim>\<open>stop\<close> nothing the host does makes the plugin call
  \<^verbatim>\<open>net.createConnection\<close> again.
\<close>

theorem single_reconnect_timer:
  assumes "st = fst (run rt initial inputs)"
  shows "length (filter (\<lambda>(h, c). c = category) (pending_timers st)) \<le> 1
    \<and> (\<not> isShuttingDown st \<and> current (reconnectTimers st) category = None \<longrightarrow>
         timeouts (snd (on_close st category h' hadError)) = [next_handle st])
    \<and> ((h, category) \<in> set (pending_timers st) \<longrightarrow>
         pending_timers (fst (on_close st category h' hadError)) = pending_timers st
         \<and> reconnectTimers (fst (on_close st category h' hadError)) = reconnectTimers st
         \<and> timeouts (snd (on_close st category h' hadError)) = []
         \<and> ClearTimeout h \<in> set (snd (stop st unsubscribe)))
    \<and> pending_timers (fst (stop st unsubscribe)) = []
    \<and> connections (snd (run rt (fst (stop st unsubscribe)) later)) = []"
proof -
  have ok: "timers_ok st"
    unfolding assms using timers_ok_initial by (rule timers_ok_run)
  have down: "isShuttingDown (fst (stop st unsubscribe))"
    using stop_timers [of st unsubscribe] by auto
  show ?thesis
    using one_timer_per_category [OF ok, of category]
      close_schedules_one [of st category h' hadError]
      close_while_pending [OF ok, of h category h' hadError]
      stop_clears [OF ok, of h category unsubscribe]
      stop_no_pending [OF ok, of unsubscribe]
      shutting_down_run [OF down, of rt later]
    by blast
qed

text \<open>
  The sensor socket closes after the start: timer 3 is armed. A second \<^verbatim>\<open>'close'\<close> arms
  nothing. \<^verbatim>\<open>stop\<close> clears timer 3; the timeout, a new \<^verbatim>\<open>start\<close> and another \<^verbatim>\<open>'close'\<close>
  after it connect nothing.
\<close>

theorem single_reconnect_timer_witness:
  "pending_timers (fst (run example_runtime initial [Start None None, SocketClose Sensor 0 False]))
     = [(3, Sensor)]
   \<and> pending_timers (fst (on_close
        (fst (run example_runtime initial [Start None None, SocketClose Sensor 0 False]))
        Sensor 0 True))
     = [(3, Sensor)]
   \<and> timeouts (snd (on_close
        (fst (run example_runtime initial [Start None None, SocketClose Sensor 0 False]))
        Sensor 0 True))
     = []
   \<and> ClearTimeout 3 \<in> set (snd (stop
        (fst (run example_runtime initial [Start None None, SocketClose Sensor 0 False])) None))
   \<and> pending_timers (fst (stop
        (fst (run example_runtime initial [Start None None, SocketClose Sensor 0 False])) None))
     = []
   \<and> connections (snd (run example_runtime
        (fst (stop (fst (run example_runtime initial [Start None None, SocketClose Sensor 0 False]))
               None))
        [Timeout 3, Start None None, SocketClose Sensor 0 False]))
     = []"
proof -
  let ?st = "fst (run example_runtime initial [Start None None, SocketClose Sensor 0 False])"
  have st: "?st = fst (on_close (fst (start initial None None)) Sensor 0 False)"
    by (simp add: case_prod_unfold Let_def)
  have pending: "pending_timers ?st = [(3, Sensor)]"
    unfolding st by (simp add: sensor_closed)
  from single_reconnect_timer [where st = ?st and rt = example_runtime
      and inputs = "[Start None None, SocketClose Sensor 0 False]"
      and category = Sensor and h = 3 and h' = 0 and hadError = True and unsubscribe = None
      and later = "[Timeout 3, Start None None, SocketClose Sensor 0 False]", OF refl]
    pending
  show ?thesis
    by simp
qed


end
